theory Spec2Isabelle
  imports Complex_Main "HOL-Library.Sublist"
begin

section \<open>JavaScript values\<close>

text \<open>
  The claim objects and update payloads of the UI are plain JavaScript objects whose
  properties hold primitives. A finite number is modelled by the mathematical value of
  the binary64 number (there is one zero); the only array that occurs is the list of
  note strings of a claim. A string is modelled by the bytes of its UTF-8 encoding, so
  a code point beyond ASCII takes two to four characters; equality, the search for an
  ASCII text and the tests on ASCII characters give on the bytes the result that the
  runtime gives on the code units.
\<close>

datatype jsnum = NaN | PosInf | NegInf | Fin rat

datatype jsval =
    JUndefined
  | JNull
  | JBool bool
  | JNum jsnum
  | JStr string
  | JArr "string list"

type_synonym jsobj = "string \<rightharpoonup> jsval"

text \<open>\<^verbatim>\<open>obj[key]\<close>: a missing property reads as \<^verbatim>\<open>undefined\<close>.\<close>

definition getProp :: "jsobj \<Rightarrow> string \<Rightarrow> jsval" where
  "getProp obj key = (case obj key of None \<Rightarrow> JUndefined | Some v \<Rightarrow> v)"

text \<open>ToBoolean: the falsy values are undefined, null, false, 0, NaN and the empty string.\<close>

fun truthy :: "jsval \<Rightarrow> bool" where
  "truthy JUndefined = False"
| "truthy JNull = False"
| "truthy (JBool b) = b"
| "truthy (JNum n) = (n \<noteq> NaN \<and> n \<noteq> Fin 0)"
| "truthy (JStr s) = (s \<noteq> [])"
| "truthy (JArr xs) = True"

text \<open>\<^verbatim>\<open>a || b\<close> on values.\<close>

definition js_or :: "jsval \<Rightarrow> jsval \<Rightarrow> jsval" where
  "js_or a b = (if truthy a then a else b)"

text \<open>
  \<^verbatim>\<open>a === b\<close>: NaN equals nothing, and two arrays are equal only as references, which
  the value model does not keep, so arrays compare unequal.
\<close>

fun strict_eq :: "jsval \<Rightarrow> jsval \<Rightarrow> bool" where
  "strict_eq (JNum NaN) b = False"
| "strict_eq (JArr xs) b = False"
| "strict_eq a b = (a = b)"

section \<open>parseFloat\<close>

definition isDigit :: "char \<Rightarrow> bool" where
  "isDigit c = (48 \<le> (of_char c :: nat) \<and> (of_char c :: nat) \<le> 57)"

definition digitVal :: "char \<Rightarrow> nat" where
  "digitVal c = of_char c - 48"

definition digitsVal :: "string \<Rightarrow> nat" where
  "digitsVal ds = foldl (\<lambda>acc c. 10 * acc + digitVal c) 0 ds"

text \<open>
  StrWhiteSpaceChar, each in UTF-8: TAB, LF, VT, FF, CR and space; U+00A0; U+1680;
  U+2000 to U+200A; U+2028, U+2029 and U+202F; U+205F; U+3000; U+FEFF.
\<close>

definition whiteSpaceChars :: "string list" where
  "whiteSpaceChars =
     [[CHR 0x09], [CHR 0x0A], [CHR 0x0B], [CHR 0x0C], [CHR 0x0D], [CHR 0x20],
      [CHR 0xC2, CHR 0xA0],
      [CHR 0xE1, CHR 0x9A, CHR 0x80],
      [CHR 0xE2, CHR 0x80, CHR 0x80], [CHR 0xE2, CHR 0x80, CHR 0x81],
      [CHR 0xE2, CHR 0x80, CHR 0x82], [CHR 0xE2, CHR 0x80, CHR 0x83],
      [CHR 0xE2, CHR 0x80, CHR 0x84], [CHR 0xE2, CHR 0x80, CHR 0x85],
      [CHR 0xE2, CHR 0x80, CHR 0x86], [CHR 0xE2, CHR 0x80, CHR 0x87],
      [CHR 0xE2, CHR 0x80, CHR 0x88], [CHR 0xE2, CHR 0x80, CHR 0x89],
      [CHR 0xE2, CHR 0x80, CHR 0x8A],
      [CHR 0xE2, CHR 0x80, CHR 0xA8], [CHR 0xE2, CHR 0x80, CHR 0xA9],
      [CHR 0xE2, CHR 0x80, CHR 0xAF],
      [CHR 0xE2, CHR 0x81, CHR 0x9F],
      [CHR 0xE3, CHR 0x80, CHR 0x80],
      [CHR 0xEF, CHR 0xBB, CHR 0xBF]]"

text \<open>The white space character that the text starts with, if any.\<close>

definition whiteSpacePrefix :: "string \<Rightarrow> string option" where
  "whiteSpacePrefix s = find (\<lambda>w. prefix w s) whiteSpaceChars"

text \<open>The text without its leading white space.\<close>

function skipWhiteSpace :: "string \<Rightarrow> string" where
  "skipWhiteSpace s =
     (case whiteSpacePrefix s of
        None \<Rightarrow> s
      | Some w \<Rightarrow> skipWhiteSpace (drop (length w) s))"
  by pat_completeness auto
termination
proof (relation "measure length")
  show "wf (measure length)" by simp
next
  fix s w :: string
  assume "whiteSpacePrefix s = Some w"
  then have "w \<in> set whiteSpaceChars" and p: "prefix w s"
    by (auto simp: whiteSpacePrefix_def find_Some_iff)
  then have "w \<noteq> []"
    by (auto simp: whiteSpaceChars_def)
  with p have "length (drop (length w) s) < length s"
    by (auto simp: prefix_def)
  then show "(drop (length w) s, s) \<in> measure length"
    by simp
qed

text \<open>An optional sign: whether it is a minus, and the rest of the text.\<close>

fun signPart :: "string \<Rightarrow> bool \<times> string" where
  "signPart [] = (False, [])"
| "signPart (c # r) =
     (if c = CHR ''-'' then (True, r) else if c = CHR ''+'' then (False, r) else (False, c # r))"

text \<open>
  ExponentPart: \<^verbatim>\<open>e\<close> or \<^verbatim>\<open>E\<close>, an optional sign and at least one digit; anything else
  is not part of the number and counts as exponent 0.
\<close>

fun exponentPart :: "string \<Rightarrow> int" where
  "exponentPart [] = 0"
| "exponentPart (c # r) =
     (if c = CHR ''e'' \<or> c = CHR ''E'' then
        (let (neg, r1) = signPart r; ds = takeWhile isDigit r1
         in if ds = [] then 0 else if neg then - int (digitsVal ds) else int (digitsVal ds))
      else 0)"

text \<open>The digits after a decimal point, and the rest of the text.\<close>

fun fractionPart :: "string \<Rightarrow> string \<times> string" where
  "fractionPart [] = ([], [])"
| "fractionPart (c # r) =
     (if c = CHR ''.'' then (takeWhile isDigit r, dropWhile isDigit r) else ([], c # r))"

text \<open>
  The Number value of a positive rational \<open>a / b\<close>: the nearest binary64 number, a tie
  going to the even significand, and infinity when that is \<open>2 ^ 1024\<close> or more. \<open>bitLength n\<close> is
  the number of binary digits of \<open>n\<close>, \<open>binaryExponent a b\<close> the \<open>e\<close> with
  \<open>2 ^ e \<le> a / b < 2 ^ (e + 1)\<close>, and the significand has 53 bits down to the
  exponent \<open>- 1022\<close>, below which the numbers are the multiples of \<open>2 ^ - 1074\<close>.
\<close>

fun bitLength :: "nat \<Rightarrow> nat" where
  "bitLength n = (if n = 0 then 0 else Suc (bitLength (n div 2)))"

definition pow2 :: "int \<Rightarrow> rat" where
  "pow2 e = (if 0 \<le> e then 2 ^ nat e else 1 / 2 ^ nat (- e))"

definition binaryExponent :: "nat \<Rightarrow> nat \<Rightarrow> int" where
  "binaryExponent a b =
     (let e = int (bitLength a) - int (bitLength b)
      in if rat_of_nat b * pow2 e \<le> rat_of_nat a then e else e - 1)"

text \<open>\<open>a / b\<close> rounded to the nearest integer, a tie going to the even one.\<close>

definition roundHalfEven :: "int \<Rightarrow> int \<Rightarrow> int" where
  "roundHalfEven a b =
     (let n = a div b; r = a mod b
      in if 2 * r < b then n else if b < 2 * r then n + 1 else if even n then n else n + 1)"

definition roundBinary64 :: "bool \<Rightarrow> nat \<Rightarrow> nat \<Rightarrow> jsnum" where
  "roundBinary64 neg a b =
     (if a = 0 then Fin 0
      else
        (let e = binaryExponent a b; p = max (e - 52) (- 1074);
             n = (if 0 \<le> p then roundHalfEven (int a) (int b * 2 ^ nat p)
                  else roundHalfEven (int a * 2 ^ nat (- p)) (int b))
         in if 1023 < e \<or> (e = 1023 \<and> n = 2 ^ 53) then (if neg then NegInf else PosInf)
            else Fin ((if neg then - 1 else 1) * of_int n * pow2 p)))"

text \<open>
  \<^verbatim>\<open>parseFloat(string)\<close>: leading white space is skipped, then the longest prefix that is
  a StrDecimalLiteral is read, and its value (the digits times a power of ten) rounded to
  a Number; NaN when there is none.
\<close>

definition parseFloat :: "string \<Rightarrow> jsnum" where
  "parseFloat input =
     (let (neg, s1) = signPart (skipWhiteSpace input)
      in if prefix ''Infinity'' s1 then (if neg then NegInf else PosInf)
         else
           (let ip = takeWhile isDigit s1;
                (fp, s3) = fractionPart (dropWhile isDigit s1)
            in if ip = [] \<and> fp = [] then NaN
               else
                 (let m = digitsVal (ip @ fp); x = exponentPart s3 - int (length fp)
                  in if 0 \<le> x then roundBinary64 neg (m * 10 ^ nat x) 1
                     else roundBinary64 neg m (10 ^ nat (- x)))))"

text \<open>\<^verbatim>\<open>Array.prototype.join(',')\<close> on an array of strings.\<close>

fun joinComma :: "string list \<Rightarrow> string" where
  "joinComma [] = []"
| "joinComma [x] = x"
| "joinComma (x # y # ys) = x @ '','' @ joinComma (y # ys)"

text \<open>
  \<^verbatim>\<open>parseFloat(value)\<close> converts its argument to a string first. For a number that
  string parses back to the number itself, so a number is returned as it is.
\<close>

fun parseFloatVal :: "jsval \<Rightarrow> jsnum" where
  "parseFloatVal JUndefined = parseFloat ''undefined''"
| "parseFloatVal JNull = parseFloat ''null''"
| "parseFloatVal (JBool b) = parseFloat (if b then ''true'' else ''false'')"
| "parseFloatVal (JNum n) = n"
| "parseFloatVal (JStr s) = parseFloat s"
| "parseFloatVal (JArr xs) = parseFloat (joinComma xs)"

section \<open>Dates\<close>

text \<open>
  A Date is its time value: milliseconds since the epoch, or nothing for an invalid
  date. How the runtime parses a date string is implementation-defined outside the ISO
  format, so the parser is a parameter \<open>parse\<close> of everything that builds a Date from
  a string. The calendar arithmetic and the format of \<^verbatim>\<open>toISOString\<close> follow ECMA-262.
\<close>

definition msPerDay :: int where
  "msPerDay = 86400000"

definition Day :: "int \<Rightarrow> int" where
  "Day t = t div msPerDay"

definition DaysInYear :: "int \<Rightarrow> int" where
  "DaysInYear y =
     (if y mod 4 \<noteq> 0 then 365 else if y mod 100 \<noteq> 0 then 366
      else if y mod 400 \<noteq> 0 then 365 else 366)"

definition DayFromYear :: "int \<Rightarrow> int" where
  "DayFromYear y = 365 * (y - 1970) + (y - 1969) div 4 - (y - 1901) div 100 + (y - 1601) div 400"

text \<open>The largest year that starts on or before day \<open>d\<close>, searched upwards from \<open>y\<close>.\<close>

function yearSearch :: "int \<Rightarrow> int \<Rightarrow> int" where
  "yearSearch d y = (if DayFromYear (y + 1) \<le> d then yearSearch d (y + 1) else y)"
  by pat_completeness auto
termination
proof (relation "measure (\<lambda>(d, y). nat (d - DayFromYear y))")
  show "wf (measure (\<lambda>(d, y). nat (d - DayFromYear y)))" by simp
next
  fix d y :: int
  assume le: "DayFromYear (y + 1) \<le> d"
  have a: "(y - 1969) div 4 \<le> (y + 1 - 1969) div 4"
    by (rule zdiv_mono1) simp_all
  have b: "(y + 1 - 1901) div 100 \<le> (y - 1901) div 100 + 1"
    by linarith
  have c: "(y - 1601) div 400 \<le> (y + 1 - 1601) div 400"
    by (rule zdiv_mono1) simp_all
  have step: "p \<le> p' \<Longrightarrow> q' \<le> q + 1 \<Longrightarrow> r \<le> r' \<Longrightarrow>
      365 * (y - 1970) + p - q + r < 365 * (y + 1 - 1970) + p' - q' + r'"
    for p p' q q' r r' :: int
    by simp
  have "DayFromYear y < DayFromYear (y + 1)"
    unfolding DayFromYear_def by (rule step [OF a b c])
  with le show "((d, y + 1), (d, y)) \<in> measure (\<lambda>(d, y). nat (d - DayFromYear y))"
    by simp
qed

definition YearFromTime :: "int \<Rightarrow> int" where
  "YearFromTime t =
     (let d = Day t in yearSearch d (1970 + (if 0 \<le> d then d div 366 else d div 365)))"

definition DayWithinYear :: "int \<Rightarrow> nat" where
  "DayWithinYear t = nat (Day t - DayFromYear (YearFromTime t))"

definition monthLengths :: "int \<Rightarrow> nat list" where
  "monthLengths y =
     [31, if DaysInYear y = 366 then 29 else 28, 31, 30, 31, 30, 31, 31, 30, 31, 30, 31]"

text \<open>Walk the months: the month number (from \<open>m\<close>) and the day of the month (from 1).\<close>

fun monthWalk :: "nat list \<Rightarrow> nat \<Rightarrow> nat \<Rightarrow> nat \<times> nat" where
  "monthWalk [] m d = (m, d + 1)"
| "monthWalk (l # ls) m d = (if d < l then (m, d + 1) else monthWalk ls (m + 1) (d - l))"

definition MonthDate :: "int \<Rightarrow> nat \<times> nat" where
  "MonthDate t = monthWalk (monthLengths (YearFromTime t)) 1 (DayWithinYear t)"

definition digitChar :: "nat \<Rightarrow> char" where
  "digitChar n = ''0123456789'' ! (n mod 10)"

text \<open>The last two, three, four and six decimal digits of \<open>n\<close> (zero-padded when it fits).\<close>

definition twoDigits :: "nat \<Rightarrow> string" where
  "twoDigits n = [digitChar (n div 10), digitChar n]"

definition threeDigits :: "nat \<Rightarrow> string" where
  "threeDigits n = digitChar (n div 100) # twoDigits n"

definition fourDigits :: "nat \<Rightarrow> string" where
  "fourDigits n = digitChar (n div 1000) # threeDigits n"

definition sixDigits :: "nat \<Rightarrow> string" where
  "sixDigits n = digitChar (n div 100000) # digitChar (n div 10000) # fourDigits n"

text \<open>Four digits for the years 0 to 9999, otherwise a sign and six digits.\<close>

definition yearString :: "int \<Rightarrow> string" where
  "yearString y =
     (if 0 \<le> y \<and> y \<le> 9999 then fourDigits (nat y)
      else (if y < 0 then ''-'' else ''+'') @ sixDigits (nat \<bar>y\<bar>))"

definition toISOString :: "int \<Rightarrow> string" where
  "toISOString t =
     (let (m, d) = MonthDate t; ms = nat (t mod msPerDay)
      in yearString (YearFromTime t) @ ''-'' @ twoDigits m @ ''-'' @ twoDigits d
         @ ''T'' @ twoDigits (ms div 3600000) @ '':'' @ twoDigits (ms div 60000 mod 60)
         @ '':'' @ twoDigits (ms div 1000 mod 60) @ ''.'' @ threeDigits (ms mod 1000)
         @ ''Z'')"

text \<open>\<^verbatim>\<open>date.toISOString().split('T')[0]\<close>: the text before the first T.\<close>

definition isoDatePart :: "int \<Rightarrow> string" where
  "isoDatePart t = takeWhile (\<lambda>c. c \<noteq> CHR ''T'') (toISOString t)"

text \<open>The regular expression \<^verbatim>\<open>/^\d{4}-\d{2}-\d{2}$/\<close>.\<close>

definition matchesISODate :: "string \<Rightarrow> bool" where
  "matchesISODate s =
     (length s = 10 \<and> list_all isDigit (take 4 s) \<and> s ! 4 = CHR ''-''
      \<and> list_all isDigit (take 2 (drop 5 s)) \<and> s ! 7 = CHR ''-''
      \<and> list_all isDigit (drop 8 s))"

text \<open>
  \<^verbatim>\<open>formatDateValue\<close> of the claim service module: a falsy value and a non-string are
  returned as they are; a string already in the form is returned as it is; another
  string is parsed, and rendered when the date is valid, returned as it is otherwise.
\<close>

definition formatDateValue :: "(string \<Rightarrow> int option) \<Rightarrow> jsval \<Rightarrow> jsval" where
  "formatDateValue parse v =
     (if \<not> truthy v then v
      else
        (case v of
           JStr s \<Rightarrow>
             (if matchesISODate s then v
              else (case parse s of Some t \<Rightarrow> JStr (isoDatePart t) | None \<Rightarrow> v))
         | _ \<Rightarrow> v))"

section \<open>Claim API client\<close>

text \<open>
  The module keeps \<^verbatim>\<open>updateClaim(id, data, retries = 1)\<close>; the state manager imports it as
  \<^verbatim>\<open>updateClaimAPI\<close>, the name used here. A response body has the uniform shape
  \<^verbatim>\<open>{success, data, error?, message?}\<close>; its \<^verbatim>\<open>error\<close> property is the field
  \<open>errorText\<close>.
\<close>

record 'd api_result =
  success :: bool
  data :: 'd
  errorText :: "string option"
  message :: "string option"

text \<open>
  What axios throws: the message, the error code if any, and the status of the response
  when the server answered outside 2xx (none for a timeout or a reset connection).
\<close>

datatype axios_error =
  AxiosError (err_message: string) (err_code: "string option") (err_status: "nat option")

datatype 'a attempt = Responded 'a | Threw axios_error

definition numericFields :: "string list" where
  "numericFields =
     [''charge_amt'', ''allowed_amt'', ''allowed_add_amt'', ''allowed_exp_amt'',
      ''total_amt'', ''charges_adj_amt'', ''write_off_amt'', ''bal_amt'', ''reimb_pct'',
      ''prim_amt'', ''prim_chk_amt'', ''sec_amt'', ''sec_chk_amt'', ''pat_amt'']"

text \<open>The body of \<^verbatim>\<open>numericFields.forEach\<close>.\<close>

definition formatNumericField :: "string \<Rightarrow> jsobj \<Rightarrow> jsobj" where
  "formatNumericField field sanitized =
     (let v = getProp sanitized field
      in if v \<noteq> JUndefined \<and> v \<noteq> JNull then
           (if v = JStr [] then sanitized(field \<mapsto> JNull)
            else
              (let numVal = parseFloatVal v
               in if numVal \<noteq> NaN then sanitized(field \<mapsto> JNum numVal) else sanitized))
         else sanitized)"

definition dateFields :: "string list" where
  "dateFields =
     [''charge_dt'', ''prim_post_dt'', ''prim_recv_dt'',
      ''sec_post_dt'', ''sec_recv_dt'', ''pat_recv_dt'']"

text \<open>The body of \<^verbatim>\<open>dateFields.forEach\<close> in the API client.\<close>

definition formatDateField :: "(string \<Rightarrow> int option) \<Rightarrow> string \<Rightarrow> jsobj \<Rightarrow> jsobj" where
  "formatDateField parse field sanitized =
     (let v = getProp sanitized field
      in if v \<noteq> JUndefined then
           (if v = JNull \<or> v = JStr [] then sanitized(field \<mapsto> JNull)
            else sanitized(field \<mapsto> formatDateValue parse v))
         else sanitized)"

definition legacyFields :: "string list" where
  "legacyFields = [''checkNumber'', ''amount'', ''status'', ''updatedAt'', ''createdAt'']"

text \<open>The body of \<^verbatim>\<open>legacyFields.forEach\<close>: \<^verbatim>\<open>if (field in obj) delete obj[field]\<close>.\<close>

definition deleteLegacyField :: "string \<Rightarrow> jsobj \<Rightarrow> jsobj" where
  "deleteLegacyField field sanitized =
     (if field \<in> dom sanitized then sanitized(field := None) else sanitized)"

text \<open>The payload handed to \<^verbatim>\<open>axios.put\<close>: the copy of \<^verbatim>\<open>data\<close> after the three passes.\<close>

definition sanitizedData :: "(string \<Rightarrow> int option) \<Rightarrow> jsobj \<Rightarrow> jsobj" where
  "sanitizedData parse payload =
     fold deleteLegacyField legacyFields
       (fold (formatDateField parse) dateFields
          (fold formatNumericField numericFields payload))"

text \<open>
  What the client does, in order: a PUT of a payload to a claim id, a pause in ms, or
  the GET of a claim by id.
\<close>

datatype event = Put string jsobj | Wait nat | Get string

text \<open>
  \<open>put n\<close> is the outcome of the request that is the \<open>n\<close>-th PUT of the call. The
  result of \<^verbatim>\<open>updateClaim\<close> is the value it resolves to, with the events in order.
\<close>

function updateClaimAPI ::
  "(string \<Rightarrow> int option) \<Rightarrow> (nat \<Rightarrow> string \<Rightarrow> jsobj \<Rightarrow> (jsobj option) api_result attempt)
   \<Rightarrow> nat \<Rightarrow> string \<Rightarrow> jsobj \<Rightarrow> int \<Rightarrow> (jsobj option) api_result \<times> event list" where
  "updateClaimAPI parse put n cid payload retries =
     (case put n cid (sanitizedData parse payload) of
        Responded body \<Rightarrow> (body, [Put cid (sanitizedData parse payload)])
      | Threw e \<Rightarrow>
          (if retries > 0 then
             (case updateClaimAPI parse put (Suc n) cid payload (retries - 1) of
                (r, evs) \<Rightarrow> (r, Put cid (sanitizedData parse payload) # Wait 1500 # evs))
           else
             (\<lparr>success = False, data = None,
               errorText = Some (''Failed to update claim with ID '' @ cid),
               message = Some (if err_message e \<noteq> [] then err_message e else ''Network error'')\<rparr>,
              [Put cid (sanitizedData parse payload)])))"
  by pat_completeness auto
termination
  by (relation "measure (\<lambda>(parse, put, n, cid, payload, retries). nat retries)") auto

text \<open>The number of PUT requests and the pauses among the events.\<close>

definition putCount :: "event list \<Rightarrow> nat" where
  "putCount evs = length (filter (\<lambda>e. case e of Put i p \<Rightarrow> True | _ \<Rightarrow> False) evs)"

definition waits :: "event list \<Rightarrow> nat list" where
  "waits evs = concat (map (\<lambda>e. case e of Wait ms \<Rightarrow> [ms] | _ \<Rightarrow> []) evs)"

subsection \<open>Notions used to state the properties of the payload\<close>

text \<open>
  What one pass does to the entry of its own field (\<open>None\<close>: the property is absent);
  the lemmas \<open>formatNumericField_upd\<close> and \<open>formatDateField_upd\<close> below derive them
  from the passes.
\<close>

definition numericEntry :: "jsval option \<Rightarrow> jsval option" where
  "numericEntry e =
     (case e of
        None \<Rightarrow> None
      | Some v \<Rightarrow>
          (if v = JUndefined \<or> v = JNull then Some v
           else if v = JStr [] then Some JNull
           else if parseFloatVal v \<noteq> NaN then Some (JNum (parseFloatVal v))
           else Some v))"

definition dateEntry :: "(string \<Rightarrow> int option) \<Rightarrow> jsval option \<Rightarrow> jsval option" where
  "dateEntry parse e =
     (case e of
        None \<Rightarrow> None
      | Some v \<Rightarrow>
          (if v = JUndefined then Some v
           else if v = JNull \<or> v = JStr [] then Some JNull
           else Some (formatDateValue parse v)))"

text \<open>A value that is a number or null.\<close>

definition isNumberOrNull :: "jsval \<Rightarrow> bool" where
  "isNumberOrNull v = (case v of JNum n \<Rightarrow> True | JNull \<Rightarrow> True | _ \<Rightarrow> False)"

text \<open>
  Date parsers for the examples. On a host whose zone is UTC: the sample locale date of
  the specification, two more locale dates, read as midnight of the day, and the ISO
  date with an expanded year that ECMA-262 requires every runtime to read. On a host
  whose zone is five and a half hours east of UTC: the sample locale date, read as the
  local midnight, 19800000 ms before the midnight of UTC.
\<close>

definition sampleParse :: "string \<Rightarrow> int option" where
  "sampleParse s =
     (if s = ''3/4/2025'' then Some 1741046400000
      else if s = ''2/29/2024'' then Some 1709164800000
      else if s = ''12/31/1969'' then Some (- 86400000)
      else if s = ''+010000-01-01'' then Some 253402300800000
      else None)"


section \<open>Claim state manager\<close>

text \<open>
  The runtime the state manager runs on: the Date parser, the text of a number
  (\<^verbatim>\<open>Number.prototype.toString\<close>) and the clock read by \<^verbatim>\<open>new Date()\<close>.
\<close>

record runtime =
  Date_parse :: "string \<Rightarrow> int option"
  Number_toString :: "jsnum \<Rightarrow> string"
  Date_now :: int

text \<open>
  The server as the client sees it: the outcome of the \<open>n\<close>-th PUT of an update, and
  the outcome of the GET of a claim.
\<close>

record server =
  http_put :: "nat \<Rightarrow> string \<Rightarrow> jsobj \<Rightarrow> (jsobj option) api_result attempt"
  http_get :: "string \<Rightarrow> (jsobj option) api_result attempt"

text \<open>The signed-in user of the auth context.\<close>

record auth_user =
  user_id :: string
  user_name :: string

text \<open>ToString on a value, as a template literal and \<^verbatim>\<open>toString()\<close> apply it.\<close>

fun js_toString :: "(jsnum \<Rightarrow> string) \<Rightarrow> jsval \<Rightarrow> string" where
  "js_toString nts JUndefined = ''undefined''"
| "js_toString nts JNull = ''null''"
| "js_toString nts (JBool b) = (if b then ''true'' else ''false'')"
| "js_toString nts (JNum n) = nts n"
| "js_toString nts (JStr s) = s"
| "js_toString nts (JArr xs) = joinComma xs"

text \<open>\<^verbatim>\<open>x?.toString()\<close>: undefined when \<open>x\<close> is undefined or null.\<close>

definition optToString :: "(jsnum \<Rightarrow> string) \<Rightarrow> jsval \<Rightarrow> jsval" where
  "optToString nts v = (if v = JUndefined \<or> v = JNull then JUndefined else JStr (js_toString nts v))"

text \<open>\<^verbatim>\<open>x !== undefined && x !== null ? x : null\<close>.\<close>

definition definedOrNull :: "jsval \<Rightarrow> jsval" where
  "definedOrNull v = (if v \<noteq> JUndefined \<and> v \<noteq> JNull then v else JNull)"

text \<open>The properties that \<^verbatim>\<open>mapApiClaimToVisitClaim\<close> lists as database fields.\<close>

definition canonicalFields :: "string list" where
  "canonicalFields =
     [''id'', ''patient_id'', ''patient_emr_no'', ''cpt_id'', ''cpt_code'', ''first_name'',
      ''last_name'', ''date_of_birth'', ''service_start'', ''service_end'', ''claim_status'',
      ''claim_status_type'', ''icd_code'', ''provider_name'', ''units'',
      ''oa_claim_id'', ''oa_visit_id'', ''charge_dt'', ''charge_amt'', ''allowed_amt'',
      ''allowed_add_amt'', ''allowed_exp_amt'', ''total_amt'', ''charges_adj_amt'',
      ''write_off_amt'', ''bal_amt'', ''reimb_pct'',
      ''prim_ins'', ''prim_amt'', ''prim_post_dt'', ''prim_chk_det'', ''prim_recv_dt'',
      ''prim_chk_amt'', ''prim_cmt'',
      ''sec_ins'', ''sec_amt'', ''sec_post_dt'', ''sec_chk_det'', ''sec_recv_dt'',
      ''sec_chk_amt'', ''sec_cmt'', ''sec_denial_code'',
      ''pat_amt'', ''pat_recv_dt'']"

text \<open>The properties it lists as legacy fields kept for backward compatibility.\<close>

definition compatFields :: "string list" where
  "compatFields =
     [''visitId'', ''patientId'', ''patientName'', ''dob'', ''dos'', ''checkNumber'',
      ''amount'', ''status'', ''createdAt'', ''updatedAt'', ''notes'']"

text \<open>
  \<^verbatim>\<open>mapApiClaimToVisitClaim\<close>, property by property in the order of the source. The
  two \<^verbatim>\<open>new Date()\<close> of one call read the clock at the same instant \<open>Date_now\<close>.
\<close>

definition mapApiClaimToVisitClaim :: "runtime \<Rightarrow> jsobj \<Rightarrow> jsobj" where
  "mapApiClaimToVisitClaim rt apiClaim =
     (let a = getProp apiClaim; nts = Number_toString rt;
          now = JStr (toISOString (Date_now rt))
      in map_of
        [(''id'', a ''id''),
         (''patient_id'', a ''patient_id''),
         (''patient_emr_no'', js_or (a ''patient_emr_no'') JNull),
         (''cpt_id'', js_or (optToString nts (a ''cpt_id'')) JNull),
         (''cpt_code'', js_or (a ''cpt_code'') JNull),
         (''first_name'', js_or (a ''first_name'') (JStr [])),
         (''last_name'', js_or (a ''last_name'') (JStr [])),
         (''date_of_birth'', js_or (a ''date_of_birth'') JNull),
         (''service_start'', js_or (a ''service_start'') JNull),
         (''service_end'', js_or (js_or (a ''service_end'') (a ''dos'')) JNull),
         (''claim_status'', js_or (a ''claim_status'') (JStr ''Pending'')),
         (''claim_status_type'', js_or (a ''claim_status_type'') JNull),
         (''icd_code'', js_or (a ''icd_code'') JNull),
         (''provider_name'', js_or (a ''provider_name'') JNull),
         (''units'', js_or (a ''units'') JNull),
         (''oa_claim_id'', js_or (a ''oa_claim_id'') JNull),
         (''oa_visit_id'', js_or (a ''oa_visit_id'') JNull),
         (''charge_dt'', js_or (a ''charge_dt'') JNull),
         (''charge_amt'', definedOrNull (a ''charge_amt'')),
         (''allowed_amt'', definedOrNull (a ''allowed_amt'')),
         (''allowed_add_amt'', definedOrNull (a ''allowed_add_amt'')),
         (''allowed_exp_amt'', definedOrNull (a ''allowed_exp_amt'')),
         (''total_amt'', definedOrNull (a ''total_amt'')),
         (''charges_adj_amt'', definedOrNull (a ''charges_adj_amt'')),
         (''write_off_amt'', definedOrNull (a ''write_off_amt'')),
         (''bal_amt'', definedOrNull (a ''bal_amt'')),
         (''reimb_pct'', definedOrNull (a ''reimb_pct'')),
         (''prim_ins'', js_or (a ''prim_ins'') JNull),
         (''prim_amt'', definedOrNull (a ''prim_amt'')),
         (''prim_post_dt'', js_or (a ''prim_post_dt'') JNull),
         (''prim_chk_det'', js_or (a ''prim_chk_det'') JNull),
         (''prim_recv_dt'', js_or (a ''prim_recv_dt'') JNull),
         (''prim_chk_amt'', definedOrNull (a ''prim_chk_amt'')),
         (''prim_cmt'', js_or (a ''prim_cmt'') JNull),
         (''sec_ins'', js_or (a ''sec_ins'') JNull),
         (''sec_amt'', definedOrNull (a ''sec_amt'')),
         (''sec_post_dt'', js_or (a ''sec_post_dt'') JNull),
         (''sec_chk_det'', js_or (a ''sec_chk_det'') JNull),
         (''sec_recv_dt'', js_or (a ''sec_recv_dt'') JNull),
         (''sec_chk_amt'', definedOrNull (a ''sec_chk_amt'')),
         (''sec_cmt'', js_or (a ''sec_cmt'') JNull),
         (''sec_denial_code'', js_or (a ''sec_denial_code'') JNull),
         (''pat_amt'', definedOrNull (a ''pat_amt'')),
         (''pat_recv_dt'', js_or (a ''pat_recv_dt'') JNull),
         (''visitId'', js_or (a ''oa_visit_id'') (JStr (''V'' @ js_toString nts (a ''id'')))),
         (''patientId'', js_or (optToString nts (a ''patient_id'')) (JStr [])),
         (''patientName'',
            JStr (js_toString nts (a ''first_name'') @ '' '' @ js_toString nts (a ''last_name''))),
         (''dob'', js_or (a ''date_of_birth'') (JStr [])),
         (''dos'', js_or (js_or (a ''service_end'') (a ''dos'')) (JStr [])),
         (''checkNumber'', js_or (js_or (a ''prim_chk_det'') (a ''sec_chk_det'')) (JStr [])),
         (''amount'', js_or (a ''charge_amt'') (JNum (Fin 0))),
         (''status'', js_or (a ''claim_status'') (JStr ''Pending'')),
         (''createdAt'', js_or (a ''charge_dt'') now),
         (''updatedAt'', js_or (js_or (a ''prim_post_dt'') (a ''sec_post_dt'')) now),
         (''notes'', JArr [])])"

text \<open>The state of the claim provider.\<close>

record claim_state =
  claims :: "jsobj list"
  searchResults :: "jsobj list"
  currentClaim :: "jsobj option"
  isLoading :: bool
  error :: "string option"

text \<open>
  \<^verbatim>\<open>fetchClaimById\<close>: the body of the response, or the failure object when the request
  throws.
\<close>

definition fetchClaimById ::
  "(string \<Rightarrow> (jsobj option) api_result attempt) \<Rightarrow> string \<Rightarrow> (jsobj option) api_result" where
  "fetchClaimById getReq cid =
     (case getReq cid of
        Responded body \<Rightarrow> body
      | Threw e \<Rightarrow>
          \<lparr>success = False, data = None,
           errorText = Some (''Failed to fetch claim with ID '' @ cid),
           message = Some (if err_message e \<noteq> [] then err_message e else ''Network error'')\<rparr>)"

text \<open>
  TimeClip after ToNumber: a finite number within 8.64e15 ms of the epoch, truncated
  towards zero.
\<close>

definition timeClip :: "jsnum \<Rightarrow> int option" where
  "timeClip n =
     (case n of
        Fin q \<Rightarrow>
          (if \<bar>q\<bar> > 8640000000000000 then None
           else Some (if 0 \<le> q then \<lfloor>q\<rfloor> else \<lceil>q\<rceil>))
      | _ \<Rightarrow> None)"

text \<open>
  \<^verbatim>\<open>new Date(value)\<close>: a string (and an array, through its text) is parsed; any other
  value is converted to a number of milliseconds.
\<close>

fun newDate :: "(string \<Rightarrow> int option) \<Rightarrow> jsval \<Rightarrow> int option" where
  "newDate parse (JStr s) = parse s"
| "newDate parse (JArr xs) = parse (joinComma xs)"
| "newDate parse (JNum n) = timeClip n"
| "newDate parse (JBool b) = Some (if b then 1 else 0)"
| "newDate parse JNull = Some 0"
| "newDate parse JUndefined = None"

text \<open>The body of \<^verbatim>\<open>dateFields.forEach\<close> in the provider's \<^verbatim>\<open>formatDateFields\<close>.\<close>

definition formatDateFieldsStep :: "(string \<Rightarrow> int option) \<Rightarrow> string \<Rightarrow> jsobj \<Rightarrow> jsobj" where
  "formatDateFieldsStep parse field formatted =
     (if truthy (getProp formatted field) then
        (case newDate parse (getProp formatted field) of
           Some t \<Rightarrow> formatted(field \<mapsto> JStr (isoDatePart t))
         | None \<Rightarrow> formatted)
      else formatted)"

definition formatDateFields :: "(string \<Rightarrow> int option) \<Rightarrow> jsobj \<Rightarrow> jsobj" where
  "formatDateFields parse d = fold (formatDateFieldsStep parse) dateFields d"

text \<open>\<^verbatim>\<open>list.map(c => c.id === key ? claim : c)\<close>.\<close>

definition replaceById :: "jsval \<Rightarrow> jsobj \<Rightarrow> jsobj list \<Rightarrow> jsobj list" where
  "replaceById key claim cs = map (\<lambda>c. if strict_eq (getProp c ''id'') key then claim else c) cs"

text \<open>The three setters called together: the current claim and both lists.\<close>

definition setClaim :: "jsval \<Rightarrow> jsobj \<Rightarrow> claim_state \<Rightarrow> claim_state" where
  "setClaim key claim st =
     st\<lparr>currentClaim := Some claim,
        claims := replaceById key claim (claims st),
        searchResults := replaceById key claim (searchResults st)\<rparr>"

text \<open>How a call of the provider's \<^verbatim>\<open>updateClaim\<close> ends: the promise resolves or rejects.\<close>

datatype update_outcome = Resolved jsobj | Rejected string

text \<open>
  The result of a call: the state when it ends, the state while the PUT is in flight
  (none when no request is made), how the promise ends, and the network events.
\<close>

record update_result =
  final :: claim_state
  inFlight :: "claim_state option"
  outcome :: update_outcome
  events :: "event list"

text \<open>The \<^verbatim>\<open>catch\<close> and \<^verbatim>\<open>finally\<close> blocks: the message is set, loading ends, the error is rethrown.\<close>

definition rejectWith ::
  "claim_state \<Rightarrow> claim_state option \<Rightarrow> event list \<Rightarrow> string \<Rightarrow> update_result" where
  "rejectWith st fl evs msg =
     \<lparr>final = st\<lparr>error := Some msg, isLoading := False\<rparr>, inFlight = fl,
      outcome = Rejected msg, events = evs\<rparr>"

text \<open>The message of the TypeError that V8 raises for \<^verbatim>\<open>toString\<close> of undefined or null.\<close>

definition toStringTypeError :: "jsval \<Rightarrow> string" where
  "toStringTypeError v =
     ''Cannot read properties of '' @ (if v = JNull then ''null'' else ''undefined'')
       @ '' (reading 'toString')''"

text \<open>
  The object \<^verbatim>\<open>claimWithUserInfo\<close>: the formatted data with \<^verbatim>\<open>user?.id || 1\<close> and
  \<^verbatim>\<open>user?.name || 'System'\<close>.
\<close>

definition claimWithUserInfo :: "auth_user option \<Rightarrow> jsobj \<Rightarrow> jsobj" where
  "claimWithUserInfo user formattedData =
     formattedData
       (''user_id'' \<mapsto>
          (case user of
             None \<Rightarrow> JNum (Fin 1)
           | Some u \<Rightarrow> js_or (JStr (user_id u)) (JNum (Fin 1))),
        ''username'' \<mapsto>
          (case user of
             None \<Rightarrow> JStr ''System''
           | Some u \<Rightarrow> js_or (JStr (user_name u)) (JStr ''System'')))"

text \<open>\<^verbatim>\<open>response.message || 'Failed to update claim in database'\<close>.\<close>

definition failureMessage :: "(jsobj option) api_result \<Rightarrow> string" where
  "failureMessage response =
     (case message response of
        Some m \<Rightarrow> if m \<noteq> [] then m else ''Failed to update claim in database''
      | None \<Rightarrow> ''Failed to update claim in database'')"

text \<open>\<^verbatim>\<open>response.success && response.data\<close>: the row of a successful response.\<close>

definition successRow :: "(jsobj option) api_result \<Rightarrow> jsobj option" where
  "successRow response = (if success response then data response else None)"

text \<open>
  \<^verbatim>\<open>updateClaim\<close> of the claim provider. \<open>st\<close> is the state of the render whose
  callback runs, so \<open>currentClaim st\<close> is the claim the callback closes over; the
  setters take effect in the order of the calls.
\<close>

definition updateClaim ::
  "runtime \<Rightarrow> server \<Rightarrow> auth_user option \<Rightarrow> claim_state \<Rightarrow> jsobj \<Rightarrow> update_result" where
  "updateClaim rt srv user st updatedClaimData =
     (let st1 = st\<lparr>isLoading := True, error := None\<rparr>
      in case currentClaim st of
           None \<Rightarrow> rejectWith st1 None [] ''No current claim selected to update''
         | Some cur \<Rightarrow>
             (let formattedData = formatDateFields (Date_parse rt) updatedClaimData;
                  optimisticClaim = cur ++ formattedData;
                  st2 = setClaim (getProp cur ''id'') optimisticClaim st1
              in if getProp cur ''id'' = JUndefined \<or> getProp cur ''id'' = JNull then
                   rejectWith st2 None [] (toStringTypeError (getProp cur ''id''))
                 else
                   (let cid = js_toString (Number_toString rt) (getProp cur ''id'');
                        (response, evs) =
                          updateClaimAPI (Date_parse rt) (http_put srv) 0 cid
                            (claimWithUserInfo user formattedData) 3
                    in case successRow response of
                         Some row \<Rightarrow>
                           (let mappedClaim = mapApiClaimToVisitClaim rt row
                            in \<lparr>final = (setClaim (getProp mappedClaim ''id'') mappedClaim st2)
                                  \<lparr>isLoading := False\<rparr>,
                                inFlight = Some st2, outcome = Resolved mappedClaim,
                                events = evs\<rparr>)
                       | None \<Rightarrow>
                           (let errorMsg = failureMessage response;
                                st3 = st2\<lparr>error := Some errorMsg\<rparr>;
                                st4 =
                                  (case successRow (fetchClaimById (http_get srv) cid) of
                                     Some row \<Rightarrow>
                                       setClaim (getProp cur ''id'')
                                         (mapApiClaimToVisitClaim rt row) st3
                                   | None \<Rightarrow> st3)
                            in rejectWith st4 (Some st2) (evs @ [Get cid]) errorMsg))))"

subsection \<open>Notions used to state the properties of the state manager\<close>

text \<open>
  What the provider's \<^verbatim>\<open>formatDateFields\<close> does to the entry of a date field; the
  lemma \<open>formatDateFieldsStep_upd\<close> below derives it from the pass.
\<close>

definition providerDateEntry :: "(string \<Rightarrow> int option) \<Rightarrow> jsval option \<Rightarrow> jsval option" where
  "providerDateEntry parse e =
     (case e of
        None \<Rightarrow> None
      | Some v \<Rightarrow>
          (if truthy v then
             (case newDate parse v of Some t \<Rightarrow> Some (JStr (isoDatePart t)) | None \<Rightarrow> Some v)
           else Some v))"

section \<open>History section\<close>

text \<open>
  The component keeps the entries, a loading flag, an error message, whether it is
  expanded and the time of its last fetch (\<^verbatim>\<open>isLoading\<close> and \<^verbatim>\<open>error\<close> of the source are
  the fields \<open>loading\<close> and \<open>errorMessage\<close>); the module keeps a cache of the entries
  and the time they were fetched at, by claim id. An entry of the change log is an
  object.
\<close>

record history_state =
  history :: "jsobj list"
  loading :: bool
  errorMessage :: "string option"
  isExpanded :: bool
  lastFetchTime :: int

type_synonym history_cache = "string \<rightharpoonup> (jsobj list \<times> int)"

definition CACHE_EXPIRY :: int where
  "CACHE_EXPIRY = 5 * 60 * 1000"

text \<open>\<^verbatim>\<open>String.prototype.includes\<close>.\<close>

fun strIncludes :: "string \<Rightarrow> string \<Rightarrow> bool" where
  "strIncludes [] sub = (sub = [])"
| "strIncludes (c # cs) sub = (prefix sub (c # cs) \<or> strIncludes cs sub)"

text \<open>
  The body of the response to the history request, as far as the client reads it:
  \<^verbatim>\<open>null\<close> or \<^verbatim>\<open>undefined\<close>, of which no property can be read, or a value with its
  \<^verbatim>\<open>success\<close> (as a condition), \<^verbatim>\<open>data\<close> (an array of entries), \<^verbatim>\<open>error\<close> and
  \<^verbatim>\<open>message\<close>. The body \<^verbatim>\<open>{success: true, data: []}\<close> is \<open>Response True [] JUndefined
  JUndefined\<close>.
\<close>

datatype history_response =
    NoObject
  | Response (succeeded: bool) (dataOf: "jsobj list") (errorOf: jsval) (messageOf: jsval)

text \<open>
  \<^verbatim>\<open>fetchClaimHistory\<close>: the body of the response, or the failure object with an empty
  list when the request throws.
\<close>

definition fetchClaimHistory ::
  "(string \<Rightarrow> history_response attempt) \<Rightarrow> string \<Rightarrow> history_response" where
  "fetchClaimHistory getReq cid =
     (case getReq cid of
        Responded body \<Rightarrow> body
      | Threw e \<Rightarrow>
          Response False []
            (JStr (''Failed to fetch history for claim with ID '' @ cid))
            (JStr (if err_message e \<noteq> [] then err_message e else ''Network error'')))"

text \<open>
  The two tests that end \<^verbatim>\<open>loadHistory\<close> before any request: the entries the cache
  holds for the claim when they are less than five minutes old, and a fetch less than
  ten seconds ago.
\<close>

definition cachedData :: "history_cache \<Rightarrow> string \<Rightarrow> int \<Rightarrow> jsobj list option" where
  "cachedData cache cacheKey now =
     (case cache cacheKey of
        None \<Rightarrow> None
      | Some (d, timestamp) \<Rightarrow> if now - timestamp < CACHE_EXPIRY then Some d else None)"

definition throttled :: "int \<Rightarrow> int \<Rightarrow> bool" where
  "throttled now seen = (now - seen < 10000)"

text \<open>
  \<^verbatim>\<open>message?.includes(text)\<close>: false (undefined) when there is no message; the search
  in a string; the membership test of an array; and a TypeError, here no result, for a
  number or a boolean, which have no \<^verbatim>\<open>includes\<close>.
\<close>

fun messageIncludes :: "jsval \<Rightarrow> string \<Rightarrow> bool option" where
  "messageIncludes JUndefined sub = Some False"
| "messageIncludes JNull sub = Some False"
| "messageIncludes (JStr m) sub = Some (strIncludes m sub)"
| "messageIncludes (JArr xs) sub = Some (sub \<in> set xs)"
| "messageIncludes (JNum n) sub = None"
| "messageIncludes (JBool b) sub = None"

text \<open>
  \<^verbatim>\<open>loadHistory(forceRefresh)\<close>. \<open>now\<close> is \<^verbatim>\<open>Date.now()\<close>, \<open>seen\<close> the
  \<^verbatim>\<open>lastFetchTime\<close> that the callback closes over, and \<open>mounted\<close> the value of
  \<^verbatim>\<open>isMounted.current\<close> when the response arrives. The result is the cache and the
  state when the call ends. \<open>caught\<close> is the \<^verbatim>\<open>catch\<close> block followed by
  \<^verbatim>\<open>finally\<close>, reached when reading the response throws.
\<close>

definition loadHistory ::
  "(string \<Rightarrow> history_response attempt) \<Rightarrow> string \<Rightarrow> int \<Rightarrow> int \<Rightarrow> bool \<Rightarrow> bool
   \<Rightarrow> history_cache \<Rightarrow> history_state \<Rightarrow> history_cache \<times> history_state" where
  "loadHistory getReq cacheKey now seen mounted forceRefresh cache st =
     (case (if forceRefresh then None else cachedData cache cacheKey now) of
        Some d \<Rightarrow> (cache, st\<lparr>history := d\<rparr>)
      | None \<Rightarrow>
          (if \<not> forceRefresh \<and> throttled now seen then (cache, st)
           else
             (let st1 = st\<lparr>loading := True, errorMessage := None, lastFetchTime := now\<rparr>;
                  caught =
                    (cache,
                     st1\<lparr>errorMessage :=
                           Some ''An error occurred while loading history. Please try again later.'',
                         history := [], loading := False\<rparr>)
              in if \<not> mounted then (cache, st1)
                 else
                   (case fetchClaimHistory getReq cacheKey of
                      NoObject \<Rightarrow> caught
                    | Response ok d err msg \<Rightarrow>
                        (if ok then
                           (cache(cacheKey \<mapsto> (d, now)), st1\<lparr>history := d, loading := False\<rparr>)
                         else
                           (case messageIncludes msg ''status code 500'' of
                              None \<Rightarrow> caught
                            | Some True \<Rightarrow>
                                (cache,
                                 st1\<lparr>errorMessage :=
                                       Some ''Unable to load history right now. Please try again later.'',
                                     history := [], loading := False\<rparr>)
                            | Some False \<Rightarrow>
                                (case messageIncludes msg ''Network Error'' of
                                   None \<Rightarrow> caught
                                 | Some True \<Rightarrow>
                                     (cache,
                                      st1\<lparr>errorMessage :=
                                            Some ''Network error. Please check your connection and try again.'',
                                          history := [], loading := False\<rparr>)
                                 | Some False \<Rightarrow>
                                     (cache, st1\<lparr>history := [], loading := False\<rparr>))))))))"

text \<open>
  The section on the page: its state and the flag \<^verbatim>\<open>isMounted.current\<close>. At the first
  render the state has the initial values of \<^verbatim>\<open>useState\<close> and the flag that of
  \<^verbatim>\<open>useRef(true)\<close>.
\<close>

record history_section =
  sectionState :: history_state
  isMounted :: bool

definition initialSection :: history_section where
  "initialSection =
     \<lparr>sectionState =
        \<lparr>history = [], loading = False, errorMessage = None, isExpanded = True,
         lastFetchTime = 0\<rparr>,
      isMounted = True\<rparr>"

text \<open>
  Mounting runs the two effects in the order of the source: the first calls
  \<^verbatim>\<open>loadHistory(false)\<close>, whose request is then under way, and the second sets the flag.
  The response arrives after both, so the call reads the flag as the second effect left
  it. No other event of the section falls between a request and its response.
\<close>

definition mountSection ::
  "(string \<Rightarrow> history_response attempt) \<Rightarrow> string \<Rightarrow> int \<Rightarrow> history_cache
   \<Rightarrow> history_cache \<times> history_section" where
  "mountSection getReq claimId now cache =
     (let sec = initialSection\<lparr>isMounted := True\<rparr>;
          (cache', st') =
            loadHistory getReq claimId now (lastFetchTime (sectionState initialSection))
              (isMounted sec) False cache (sectionState initialSection)
      in (cache', sec\<lparr>sectionState := st'\<rparr>))"

text \<open>
  A new \<^verbatim>\<open>claimId\<close> for the mounted section: the cleanup of the first effect, which has
  \<^verbatim>\<open>claimId\<close> among its dependencies, clears the flag; then the effect runs again and
  calls \<^verbatim>\<open>loadHistory(false)\<close> for the new id, with the \<^verbatim>\<open>lastFetchTime\<close> of that render.
  The second effect has no dependencies and does not run again, so nothing sets the
  flag.
\<close>

definition changeClaimId ::
  "(string \<Rightarrow> history_response attempt) \<Rightarrow> string \<Rightarrow> int \<Rightarrow> history_cache \<Rightarrow> history_section
   \<Rightarrow> history_cache \<times> history_section" where
  "changeClaimId getReq claimId now cache sec =
     (let sec1 = sec\<lparr>isMounted := False\<rparr>;
          (cache', st') =
            loadHistory getReq claimId now (lastFetchTime (sectionState sec)) (isMounted sec1)
              False cache (sectionState sec)
      in (cache', sec1\<lparr>sectionState := st'\<rparr>))"

text \<open>\<^verbatim>\<open>handleRefresh\<close>, the click on a Refresh button: \<^verbatim>\<open>loadHistory(true)\<close>.\<close>

definition handleRefresh ::
  "(string \<Rightarrow> history_response attempt) \<Rightarrow> string \<Rightarrow> int \<Rightarrow> history_cache \<Rightarrow> history_section
   \<Rightarrow> history_cache \<times> history_section" where
  "handleRefresh getReq claimId now cache sec =
     (let (cache', st') =
            loadHistory getReq claimId now (lastFetchTime (sectionState sec)) (isMounted sec)
              True cache (sectionState sec)
      in (cache', sec\<lparr>sectionState := st'\<rparr>))"

text \<open>What the section shows: nothing below its title when collapsed, else one of four bodies.\<close>

datatype history_view =
    Collapsed
  | LoadingView
  | ErrorBanner string
  | EmptyState
  | Entries "jsobj list"

text \<open>The body under \<^verbatim>\<open>error ? ... : history.length === 0 ? ... : ...\<close> when no error shows.\<close>

definition historyBody :: "jsobj list \<Rightarrow> history_view" where
  "historyBody entries = (if length entries = 0 then EmptyState else Entries entries)"

definition historyView :: "history_state \<Rightarrow> history_view" where
  "historyView st =
     (if \<not> isExpanded st then Collapsed
      else if loading st then LoadingView
      else
        (case errorMessage st of
           Some e \<Rightarrow> if e \<noteq> [] then ErrorBanner e else historyBody (history st)
         | None \<Rightarrow> historyBody (history st)))"

section \<open>Claim Service\<close>

text \<open>
  Modelled from the spec: the Claim Service's update operation (the server route behind
  \<^verbatim>\<open>PUT /api/claims/:id\<close>, with its queries on the claim table and the change-log
  table) is not among the files of the repository under \<^verbatim>\<open>src/\<close>; only its callers
  and the connection pool are. The definitions of this section follow section 4.1 of
  the specification. A column holds a value or null (\<open>None\<close>); the known-canonical
  columns, the required identity fields and the normalization of an incoming value
  (numeric coercion, date form) are parameters.
\<close>

datatype service_error = NotFoundError | ValidationError | PersistenceError

record 'v change_log_entry =
  entry_claim :: int
  entry_user :: auth_user
  entry_field_name :: string
  entry_old_value :: "'v option"
  entry_new_value :: "'v option"
  entry_timestamp :: int

record 'v claim_store =
  claimRows :: "int \<rightharpoonup> (string \<Rightarrow> 'v option)"
  changeLog :: "'v change_log_entry list"

text \<open>
  Modelled from the spec: the parameters of the service: the canonical columns, the
  identity fields a request must carry, and the normalization of the value of a field.
\<close>

record ('r, 'v) service_config =
  columns :: "string list"
  requiredFields :: "string list"
  normalize :: "string \<Rightarrow> 'r \<Rightarrow> 'v option"

text \<open>
  Modelled from the spec: the fields a request targets are its fields that are
  canonical columns (another field is stripped), and the incoming value of one is the
  normalized value of the request.
\<close>

definition targetedFields :: "('r, 'v) service_config \<Rightarrow> (string \<rightharpoonup> 'r) \<Rightarrow> string list" where
  "targetedFields cfg request = filter (\<lambda>f. request f \<noteq> None) (columns cfg)"

definition incoming :: "('r, 'v) service_config \<Rightarrow> (string \<rightharpoonup> 'r) \<Rightarrow> string \<Rightarrow> 'v option" where
  "incoming cfg request f = (case request f of None \<Rightarrow> None | Some r \<Rightarrow> normalize cfg f r)"

text \<open>
  Modelled from the spec: the fields whose value actually changes are the targeted
  fields whose stored value differs from the incoming one.
\<close>

definition changedFields ::
  "('r, 'v) service_config \<Rightarrow> (string \<Rightarrow> 'v option) \<Rightarrow> (string \<rightharpoonup> 'r) \<Rightarrow> string list" where
  "changedFields cfg row request =
     filter (\<lambda>f. row f \<noteq> incoming cfg request f) (targetedFields cfg request)"

text \<open>Modelled from the spec: the row with every targeted field set to its incoming value.\<close>

definition updatedRow ::
  "('r, 'v) service_config \<Rightarrow> (string \<Rightarrow> 'v option) \<Rightarrow> (string \<rightharpoonup> 'r) \<Rightarrow> string \<Rightarrow> 'v option" where
  "updatedRow cfg row request =
     (\<lambda>f. if f \<in> set (targetedFields cfg request) then incoming cfg request f else row f)"

text \<open>
  Modelled from the spec: the change-log entry of a changed field, with the old and
  the new value, the acting user and the time.
\<close>

definition logEntry ::
  "('r, 'v) service_config \<Rightarrow> int \<Rightarrow> auth_user \<Rightarrow> int \<Rightarrow> (string \<Rightarrow> 'v option)
   \<Rightarrow> (string \<rightharpoonup> 'r) \<Rightarrow> string \<Rightarrow> 'v change_log_entry" where
  "logEntry cfg cid user now row request f =
     \<lparr>entry_claim = cid, entry_user = user, entry_field_name = f,
      entry_old_value = row f, entry_new_value = incoming cfg request f,
      entry_timestamp = now\<rparr>"

text \<open>
  Modelled from the spec: the writes of one update, in order: the row, then one
  change-log insert per changed field.
\<close>

datatype 'v store_write =
    WriteRow int "string \<Rightarrow> 'v option"
  | InsertLog "'v change_log_entry"

definition applyWrite :: "'v store_write \<Rightarrow> 'v claim_store \<Rightarrow> 'v claim_store" where
  "applyWrite w store =
     (case w of
        WriteRow cid row \<Rightarrow> store\<lparr>claimRows := (claimRows store)(cid \<mapsto> row)\<rparr>
      | InsertLog e \<Rightarrow> store\<lparr>changeLog := changeLog store @ [e]\<rparr>)"

definition updateWrites ::
  "('r, 'v) service_config \<Rightarrow> int \<Rightarrow> auth_user \<Rightarrow> int \<Rightarrow> (string \<Rightarrow> 'v option)
   \<Rightarrow> (string \<rightharpoonup> 'r) \<Rightarrow> 'v store_write list" where
  "updateWrites cfg cid user now row request =
     WriteRow cid (updatedRow cfg row request)
       # map (\<lambda>f. InsertLog (logEntry cfg cid user now row request f))
           (changedFields cfg row request)"

text \<open>
  Modelled from the spec: the writes run one after the other on the store; \<open>fails n\<close>
  says that the storage fails at the \<open>n\<close>-th write, and then nothing is returned.
\<close>

fun runWrites ::
  "(nat \<Rightarrow> bool) \<Rightarrow> nat \<Rightarrow> 'v store_write list \<Rightarrow> 'v claim_store \<Rightarrow> 'v claim_store option" where
  "runWrites fails n [] store = Some store"
| "runWrites fails n (w # ws) store =
     (if fails n then None else runWrites fails (Suc n) ws (applyWrite w store))"

text \<open>
  Modelled from the spec: the update operation. It fails with ValidationError when a
  required identity field is missing and with NotFoundError when the claim id does not
  exist; then the writes run as one transaction: when the storage fails the store is
  the one before the request and the error is PersistenceError, otherwise the store has
  all the writes and the full updated row is returned.
\<close>

definition updateClaimService ::
  "('r, 'v) service_config \<Rightarrow> (nat \<Rightarrow> bool) \<Rightarrow> int \<Rightarrow> int \<Rightarrow> auth_user
   \<Rightarrow> (string \<rightharpoonup> 'r) \<Rightarrow> 'v claim_store
   \<Rightarrow> (service_error + (string \<Rightarrow> 'v option)) \<times> 'v claim_store" where
  "updateClaimService cfg fails now cid user request store =
     (if \<exists>f \<in> set (requiredFields cfg). request f = None then (Inl ValidationError, store)
      else
        (case claimRows store cid of
           None \<Rightarrow> (Inl NotFoundError, store)
         | Some row \<Rightarrow>
             (case runWrites fails 0 (updateWrites cfg cid user now row request) store of
                None \<Rightarrow> (Inl PersistenceError, store)
              | Some store' \<Rightarrow> (Inr (updatedRow cfg row request), store'))))"

section \<open>Sample data for the examples\<close>

text \<open>A stored claim, an edit of its charge amount, and the row the server holds after it.\<close>

definition sampleClaim :: jsobj where
  "sampleClaim = [''id'' \<mapsto> JNum (Fin 42), ''charge_amt'' \<mapsto> JNum (Fin 150)]"

definition sampleUpdate :: jsobj where
  "sampleUpdate = [''id'' \<mapsto> JNum (Fin 42), ''charge_amt'' \<mapsto> JNum (Fin 200)]"

definition sampleRow :: jsobj where
  "sampleRow = [''id'' \<mapsto> JNum (Fin 42), ''charge_amt'' \<mapsto> JNum (Fin 200)]"

definition sampleState :: claim_state where
  "sampleState =
     \<lparr>claims = [sampleClaim], searchResults = [sampleClaim], currentClaim = Some sampleClaim,
      isLoading = False, error = None\<rparr>"

text \<open>A successful response body, and three failures as axios reports them.\<close>

definition okBody :: "jsobj \<Rightarrow> (jsobj option) api_result" where
  "okBody row = \<lparr>success = True, data = Some row, errorText = None, message = None\<rparr>"

definition timeoutError :: axios_error where
  "timeoutError = AxiosError ''timeout of 15000ms exceeded'' (Some ''ECONNABORTED'') None"

definition networkError :: axios_error where
  "networkError = AxiosError ''Network Error'' (Some ''ERR_NETWORK'') None"

definition notFoundError :: axios_error where
  "notFoundError =
     AxiosError ''Request failed with status code 404'' (Some ''ERR_BAD_REQUEST'') (Some 404)"

text \<open>A server whose first PUT fails and whose later PUTs succeed, and one that is down.\<close>

definition failsOnceThen ::
  "axios_error \<Rightarrow> jsobj \<Rightarrow> nat \<Rightarrow> string \<Rightarrow> jsobj \<Rightarrow> (jsobj option) api_result attempt" where
  "failsOnceThen e row n cid payload = (if n = 0 then Threw e else Responded (okBody row))"

definition alwaysFails ::
  "axios_error \<Rightarrow> nat \<Rightarrow> string \<Rightarrow> jsobj \<Rightarrow> (jsobj option) api_result attempt" where
  "alwaysFails e n cid payload = Threw e"

definition offline :: server where
  "offline = \<lparr>http_put = alwaysFails networkError, http_get = (\<lambda>cid. Threw networkError)\<rparr>"

text \<open>
  The text of a number, for the integers (below 1e21 in size), which is all the
  examples use; and a runtime for the examples.
\<close>

fun natDigits :: "nat \<Rightarrow> string" where
  "natDigits n = (if n < 10 then [digitChar n] else natDigits (n div 10) @ [digitChar n])"

definition sampleNumberToString :: "jsnum \<Rightarrow> string" where
  "sampleNumberToString n =
     (case n of
        NaN \<Rightarrow> ''NaN''
      | PosInf \<Rightarrow> ''Infinity''
      | NegInf \<Rightarrow> ''-Infinity''
      | Fin q \<Rightarrow> (if q < 0 then ''-'' else []) @ natDigits (nat \<bar>\<lfloor>q\<rfloor>\<bar>))"

definition sampleRuntime :: runtime where
  "sampleRuntime =
     \<lparr>Date_parse = sampleParse, Number_toString = sampleNumberToString,
      Date_now = 1741046400000\<rparr>"

text \<open>A server whose first PUT times out and whose second succeeds.\<close>

definition flaky :: server where
  "flaky =
     \<lparr>http_put = failsOnceThen timeoutError sampleRow,
      http_get = (\<lambda>cid. Responded (okBody sampleClaim))\<rparr>"

text \<open>A state with no claim selected.\<close>

definition emptySelection :: claim_state where
  "emptySelection =
     \<lparr>claims = [sampleClaim], searchResults = [], currentClaim = None,
      isLoading = False, error = None\<rparr>"

text \<open>A second claim, and a state whose lists hold it beside the selected claim.\<close>

definition otherClaim :: jsobj where
  "otherClaim = [''id'' \<mapsto> JNum (Fin 7), ''charge_amt'' \<mapsto> JNum (Fin 80)]"

definition listedState :: claim_state where
  "listedState =
     \<lparr>claims = [otherClaim, sampleClaim], searchResults = [sampleClaim, otherClaim],
      currentClaim = Some sampleClaim, isLoading = False, error = None\<rparr>"

text \<open>
  A server that answers the PUT with the row of the claim, its id written as the
  string \<^verbatim>\<open>'42'\<close>.
\<close>

definition stringIdRow :: jsobj where
  "stringIdRow = [''id'' \<mapsto> JStr ''42'', ''charge_amt'' \<mapsto> JNum (Fin 200)]"

definition stringIdServer :: server where
  "stringIdServer =
     \<lparr>http_put = (\<lambda>n cid payload. Responded (okBody stringIdRow)),
      http_get = (\<lambda>cid. Responded (okBody sampleClaim))\<rparr>"

text \<open>
  A history endpoint that answers every claim with no entries, and one that fails with
  a status 500.
\<close>

definition noHistory :: "string \<Rightarrow> history_response attempt" where
  "noHistory cid = Responded (Response True [] JUndefined JUndefined)"

definition serverError :: "string \<Rightarrow> history_response attempt" where
  "serverError cid =
     Threw (AxiosError ''Request failed with status code 500'' (Some ''ERR_BAD_RESPONSE'')
        (Some 500))"

text \<open>
  A visit of the page: the section is mounted for claim 41, whose history is empty; a
  minute later the page shows claim 42, whose history is empty too.
\<close>

definition firstClaim :: "history_cache \<times> history_section" where
  "firstClaim = mountSection noHistory ''41'' 1741046400000 Map.empty"

definition secondClaim :: "history_cache \<times> history_section" where
  "secondClaim = changeClaimId noHistory ''42'' 1741046460000 (fst firstClaim) (snd firstClaim)"

text \<open>
  Another visit: the empty history of claim 42 was cached a minute before; the section
  is mounted for claim 41 while the server fails, and ten seconds later the page shows
  claim 42.
\<close>

definition cachedEmpty :: history_cache where
  "cachedEmpty = [''42'' \<mapsto> ([], 1741046340000)]"

definition failedClaim :: "history_cache \<times> history_section" where
  "failedClaim = mountSection serverError ''41'' 1741046400000 cachedEmpty"

definition cachedClaim :: "history_cache \<times> history_section" where
  "cachedClaim = changeClaimId noHistory ''42'' 1741046410000 (fst failedClaim) (snd failedClaim)"

text \<open>
  A service with two columns that stores text and reads the empty string as null; a
  store with claim 42 charged 150.00; the acting user; and a storage that fails at its
  second write.
\<close>

definition sampleConfig :: "(string, string) service_config" where
  "sampleConfig =
     \<lparr>columns = [''charge_amt'', ''charge_dt''], requiredFields = [],
      normalize = (\<lambda>f r. if r = [] then None else Some r)\<rparr>"

definition sampleStoredRow :: "string \<Rightarrow> string option" where
  "sampleStoredRow f = (if f = ''charge_amt'' then Some ''150.00'' else None)"

definition sampleStore :: "string claim_store" where
  "sampleStore = \<lparr>claimRows = [42 \<mapsto> sampleStoredRow], changeLog = []\<rparr>"

definition sampleUser :: auth_user where
  "sampleUser = \<lparr>user_id = ''admin-1'', user_name = ''Admin User''\<rparr>"

definition failsAtSecondWrite :: "nat \<Rightarrow> bool" where
  "failsAtSecondWrite n = (n = 1)"

definition neverFails :: "nat \<Rightarrow> bool" where
  "neverFails n = False"

section \<open>Properties of the API client's payload\<close>

subsection \<open>Each pass rewrites the entry of its own field only\<close>

lemma formatNumericField_upd: "formatNumericField f obj = obj(f := numericEntry (obj f))"
  by (auto simp: formatNumericField_def numericEntry_def getProp_def Let_def split: option.splits)

lemma formatDateField_upd: "formatDateField parse f obj = obj(f := dateEntry parse (obj f))"
  by (auto simp: formatDateField_def dateEntry_def getProp_def Let_def split: option.splits)

lemma deleteLegacyField_upd: "deleteLegacyField f obj = obj(f := None)"
  by (auto simp: deleteLegacyField_def)

lemma fold_upd_apply:
  "distinct fs \<Longrightarrow>
   fold (\<lambda>f obj. obj(f := g (obj f))) fs obj k = (if k \<in> set fs then g (obj k) else obj k)"
  by (induction fs arbitrary: obj) auto

lemma fields_distinct:
  "distinct numericFields" "distinct dateFields" "distinct legacyFields"
  by (simp_all add: numericFields_def dateFields_def legacyFields_def)

lemma fields_disjoint:
  "set numericFields \<inter> set dateFields = {}"
  "set numericFields \<inter> set legacyFields = {}"
  "set dateFields \<inter> set legacyFields = {}"
  by (simp_all add: numericFields_def dateFields_def legacyFields_def)

text \<open>The payload, property by property.\<close>

lemma sanitizedData_apply:
  "sanitizedData parse p k =
     (if k \<in> set legacyFields then None
      else if k \<in> set dateFields then dateEntry parse (p k)
      else if k \<in> set numericFields then numericEntry (p k)
      else p k)"
proof -
  define p1 where "p1 = fold formatNumericField numericFields p"
  define p2 where "p2 = fold (formatDateField parse) dateFields p1"
  have n: "formatNumericField = (\<lambda>f obj. obj(f := numericEntry (obj f)))"
    by (intro ext) (simp add: formatNumericField_upd)
  have d: "formatDateField parse = (\<lambda>f obj. obj(f := dateEntry parse (obj f)))"
    by (intro ext) (simp add: formatDateField_upd)
  have l: "deleteLegacyField = (\<lambda>f obj. obj(f := (\<lambda>x. None) (obj f)))"
    by (intro ext) (simp add: deleteLegacyField_upd)
  have 1: "p1 k = (if k \<in> set numericFields then numericEntry (p k) else p k)"
    unfolding p1_def n by (rule fold_upd_apply [OF fields_distinct(1)])
  have 2: "p2 k = (if k \<in> set dateFields then dateEntry parse (p1 k) else p1 k)"
    unfolding p2_def d by (rule fold_upd_apply [OF fields_distinct(2)])
  have 3: "sanitizedData parse p k = (if k \<in> set legacyFields then None else p2 k)"
    unfolding sanitizedData_def p2_def p1_def l
    by (rule fold_upd_apply [OF fields_distinct(3), where g = "\<lambda>x. None"])
  have nd: "k \<in> set dateFields \<Longrightarrow> k \<notin> set numericFields"
    using fields_disjoint(1) by blast
  show ?thesis
    using nd by (simp add: 1 2 3)
qed

subsection \<open>Numeric fields\<close>

lemma getProp_sanitizedData_numeric:
  assumes "f \<in> set numericFields"
  shows "getProp (sanitizedData parse p) f =
     (let v = getProp p f
      in if v = JUndefined \<or> v = JNull then v
         else if v = JStr [] then JNull
         else if parseFloatVal v \<noteq> NaN then JNum (parseFloatVal v) else v)"
proof -
  have a: "f \<notin> set legacyFields" "f \<notin> set dateFields"
    using assms fields_disjoint by blast+
  show ?thesis
    using assms a
    by (simp add: getProp_def sanitizedData_apply numericEntry_def Let_def split: option.splits)
qed

declare skipWhiteSpace.simps [simp del]

declare bitLength.simps [simp del]

lemmas parseFloat_eval =
  parseFloat_def skipWhiteSpace.simps whiteSpacePrefix_def whiteSpaceChars_def isDigit_def
  digitsVal_def digitVal_def

lemmas roundBinary64_eval =
  roundBinary64_def binaryExponent_def bitLength.simps pow2_def roundHalfEven_def Let_def

lemma parseFloat_empty: "parseFloat [] = NaN"
  by (simp add: parseFloat_eval)

lemma parseFloat_boolean: "parseFloat ''true'' = NaN" "parseFloat ''false'' = NaN"
  by (simp_all add: parseFloat_eval)

text \<open>
  The text 12.5 after a no-break space (U+00A0) and a tab, and with a unit after it; an
  integer beyond \<open>2 ^ 53\<close>, which is rounded to the nearest Number.
\<close>

lemma parseFloat_white_space: "parseFloat (CHR 0xC2 # CHR 0xA0 # CHR 0x09 # ''12.5 USD'') = Fin (25 / 2)"
proof -
  have "roundBinary64 False 125 10 = Fin (25 / 2)"
    by (simp add: roundBinary64_eval)
  then show ?thesis
    by (simp add: parseFloat_eval)
qed

lemma parseFloat_rounds: "parseFloat ''9007199254740993'' = Fin 9007199254740992"
proof -
  have "roundBinary64 False 9007199254740993 1 = Fin 9007199254740992"
    by (simp add: roundBinary64_eval)
  then show ?thesis
    by (simp add: parseFloat_eval)
qed

text \<open>Powers of two, the number of binary digits and the exponent.\<close>

lemma pow2_power_int: "pow2 e = power_int 2 e"
  by (cases "0 \<le> e") (simp_all add: pow2_def power_int_def field_simps)

lemma pow2_pos: "0 < pow2 e"
  by (simp add: pow2_power_int)

lemma pow2_add: "pow2 (a + b) = pow2 a * pow2 b"
  by (simp add: pow2_power_int power_int_add)

lemma pow2_mono: "a \<le> b \<Longrightarrow> pow2 a \<le> pow2 b"
  by (simp add: pow2_power_int power_int_increasing)

lemma pow2_nat: "pow2 (int n) = 2 ^ n"
  by (simp add: pow2_def)

lemma bitLength_bounds: "0 < n \<Longrightarrow> 2 ^ (bitLength n - 1) \<le> n \<and> n < 2 ^ bitLength n"
proof (induction n rule: bitLength.induct)
  case (1 n)
  define m where "m = n div 2"
  have h: "2 * m \<le> n" "n < 2 * m + 2"
    by (simp_all add: m_def)
  have bl: "bitLength n = Suc (bitLength m)"
    using 1(2) unfolding m_def by (subst bitLength.simps) simp
  show ?case
  proof (cases "m = 0")
    case True
    then have "bitLength m = 0"
      by (simp add: bitLength.simps)
    then show ?thesis
      using h 1(2) True by (simp add: bl)
  next
    case False
    then have ih: "2 ^ (bitLength m - 1) \<le> m" "m < 2 ^ bitLength m"
      using 1 by (auto simp: m_def)
    have pos: "0 < bitLength m"
      using False by (subst bitLength.simps) simp
    have e: "(2::nat) ^ bitLength m = 2 * 2 ^ (bitLength m - 1)"
      using pos by (cases "bitLength m") simp_all
    have lo: "2 ^ bitLength m \<le> n"
      using ih(1) e h(1) by linarith
    have hi: "n < 2 * 2 ^ bitLength m"
      using ih(2) h(2) by linarith
    show ?thesis
      using lo hi by (simp add: bl)
  qed
qed

lemma bitLength_pow2:
  assumes "0 < n"
  shows "pow2 (int (bitLength n) - 1) \<le> rat_of_nat n" "rat_of_nat n < pow2 (int (bitLength n))"
proof -
  have b: "2 ^ (bitLength n - 1) \<le> n" "n < 2 ^ bitLength n"
    using bitLength_bounds [OF assms] by simp_all
  have pos: "0 < bitLength n"
    using assms by (subst bitLength.simps) simp
  then have i: "int (bitLength n) - 1 = int (bitLength n - 1)"
    by simp
  have "rat_of_nat (2 ^ (bitLength n - 1)) \<le> rat_of_nat n"
    using b(1) by (rule of_nat_mono)
  then show "pow2 (int (bitLength n) - 1) \<le> rat_of_nat n"
    unfolding i pow2_nat by simp
  have "rat_of_nat n < rat_of_nat (2 ^ bitLength n)"
    using b(2) by (simp only: of_nat_less_iff)
  then show "rat_of_nat n < pow2 (int (bitLength n))"
    unfolding pow2_nat by simp
qed

text \<open>\<open>binaryExponent a b\<close> is the exponent of \<open>a / b\<close>.\<close>

lemma binaryExponent_bounds:
  assumes "0 < a" and "0 < b"
  shows "rat_of_nat b * pow2 (binaryExponent a b) \<le> rat_of_nat a"
    and "rat_of_nat a < rat_of_nat b * pow2 (binaryExponent a b + 1)"
proof -
  define e where "e = int (bitLength a) - int (bitLength b)"
  have a: "pow2 (int (bitLength a) - 1) \<le> rat_of_nat a" "rat_of_nat a < pow2 (int (bitLength a))"
    using bitLength_pow2 [OF assms(1)] by simp_all
  have b: "pow2 (int (bitLength b) - 1) \<le> rat_of_nat b" "rat_of_nat b < pow2 (int (bitLength b))"
    using bitLength_pow2 [OF assms(2)] by simp_all
  have up: "pow2 (int (bitLength a)) = pow2 (int (bitLength b) - 1) * pow2 (e + 1)"
    unfolding pow2_add [symmetric] e_def by simp
  have lo: "pow2 (int (bitLength a) - 1) = pow2 (int (bitLength b)) * pow2 (e - 1)"
    unfolding pow2_add [symmetric] e_def by simp
  have hi: "rat_of_nat a < rat_of_nat b * pow2 (e + 1)"
  proof -
    have "pow2 (int (bitLength b) - 1) * pow2 (e + 1) \<le> rat_of_nat b * pow2 (e + 1)"
      using b(1) pow2_pos [of "e + 1"] by (simp add: mult_right_mono)
    then show ?thesis
      using a(2) up by linarith
  qed
  have low: "rat_of_nat b * pow2 (e - 1) \<le> rat_of_nat a"
  proof -
    have "rat_of_nat b * pow2 (e - 1) \<le> pow2 (int (bitLength b)) * pow2 (e - 1)"
      using b(2) pow2_pos [of "e - 1"] by (simp add: mult_right_mono)
    then show ?thesis
      using a(1) lo by linarith
  qed
  show "rat_of_nat b * pow2 (binaryExponent a b) \<le> rat_of_nat a"
    using low by (simp add: binaryExponent_def Let_def e_def)
  show "rat_of_nat a < rat_of_nat b * pow2 (binaryExponent a b + 1)"
    using hi by (auto simp: binaryExponent_def Let_def e_def not_le)
qed

text \<open>From \<open>2 ^ 1024\<close> on, the Number value is an infinity.\<close>

lemma roundBinary64_overflow:
  assumes "0 < b" and "2 ^ 1024 * rat_of_nat b \<le> rat_of_nat a"
  shows "roundBinary64 neg a b = (if neg then NegInf else PosInf)"
proof -
  have b: "0 < rat_of_nat b"
    using assms(1) by simp
  then have "0 < 2 ^ 1024 * rat_of_nat b"
    by simp
  then have "0 < rat_of_nat a"
    using assms(2) by linarith
  then have a: "0 < a"
    by simp
  have "pow2 1024 * rat_of_nat b < rat_of_nat b * pow2 (binaryExponent a b + 1)"
    using binaryExponent_bounds(2) [OF a assms(1)] assms(2) by (simp add: pow2_def)
  then have "pow2 1024 < pow2 (binaryExponent a b + 1)"
    using b by (simp add: mult.commute)
  then have "\<not> binaryExponent a b + 1 \<le> 1024"
    using pow2_mono [of "binaryExponent a b + 1" 1024] by linarith
  then have "1023 < binaryExponent a b"
    by simp
  then show ?thesis
    using a by (simp add: roundBinary64_def Let_def)
qed

text \<open>A decimal beyond the range of the Numbers.\<close>

lemma parseFloat_overflow: "parseFloat ''1e400'' = PosInf"
proof -
  have "roundBinary64 False (10 ^ 400) 1 = PosInf"
    using roundBinary64_overflow [of 1 "10 ^ 400" False] by simp
  then show ?thesis
    by (simp add: parseFloat_eval)
qed

text \<open>
  C3 (as amended). For a numeric field \<open>f\<close> that the update payload holds with value
  \<open>v\<close>: the empty string is sent as null (not as zero); a numeric-looking string, one
  that \<^verbatim>\<open>parseFloat\<close> reads a number from, is sent as that number; any other non-empty
  string is sent unchanged, as a string; null and a number are sent as they are; a
  boolean is sent unchanged, and so is an array unless its text is numeric-looking, in
  which case the number is sent; the value sent is never the empty string; and it is a
  number or null exactly when \<open>v\<close> is neither a boolean nor a non-empty string or an
  array that is not numeric-looking.
\<close>

theorem numeric_field_on_the_wire:
  assumes "f \<in> set numericFields" and "getProp payload f = v" and "v \<noteq> JUndefined"
  shows "(v = JStr [] \<longrightarrow> getProp (sanitizedData parse payload) f = JNull)
       \<and> (v = JStr s \<and> parseFloat s \<noteq> NaN \<longrightarrow>
            getProp (sanitizedData parse payload) f = JNum (parseFloat s))
       \<and> (v = JStr s \<and> s \<noteq> [] \<and> parseFloat s = NaN \<longrightarrow>
            getProp (sanitizedData parse payload) f = JStr s)
       \<and> (v = JNull \<or> v = JNum n \<longrightarrow> getProp (sanitizedData parse payload) f = v)
       \<and> (v = JBool b \<longrightarrow> getProp (sanitizedData parse payload) f = JBool b)
       \<and> (v = JArr xs \<longrightarrow>
            getProp (sanitizedData parse payload) f
              = (if parseFloat (joinComma xs) = NaN then JArr xs
                 else JNum (parseFloat (joinComma xs))))
       \<and> getProp (sanitizedData parse payload) f \<noteq> JStr []
       \<and> (isNumberOrNull (getProp (sanitizedData parse payload) f) \<longleftrightarrow>
            \<not> (\<exists>b. v = JBool b) \<and> \<not> (\<exists>t. v = JStr t \<and> t \<noteq> [] \<and> parseFloat t = NaN)
            \<and> \<not> (\<exists>xs. v = JArr xs \<and> parseFloat (joinComma xs) = NaN))"
  using assms(2,3) parseFloat_boolean
  by (cases v) (auto simp: getProp_sanitizedData_numeric [OF assms(1)] Let_def
      isNumberOrNull_def parseFloat_empty)

text \<open>
  In \<^verbatim>\<open>charge_amt\<close>: the empty string; the string 12.5; the boolean true; the notes
  \<^verbatim>\<open>['n/a']\<close> and the array \<^verbatim>\<open>['12.5']\<close>.
\<close>

theorem numeric_field_on_the_wire_witness:
  "getProp (sanitizedData sampleParse [''charge_amt'' \<mapsto> JStr []]) ''charge_amt'' = JNull
   \<and> getProp (sanitizedData sampleParse [''charge_amt'' \<mapsto> JStr ''12.5''])
         ''charge_amt'' = JNum (Fin (25 / 2))
   \<and> getProp (sanitizedData sampleParse [''charge_amt'' \<mapsto> JBool True])
         ''charge_amt'' = JBool True
   \<and> getProp (sanitizedData sampleParse [''charge_amt'' \<mapsto> JArr [''n/a'']])
         ''charge_amt'' = JArr [''n/a'']
   \<and> getProp (sanitizedData sampleParse [''charge_amt'' \<mapsto> JArr [''12.5'']])
         ''charge_amt'' = JNum (Fin (25 / 2))"
proof -
  have f: "''charge_amt'' \<in> set numericFields"
    by (simp add: numericFields_def)
  have r: "roundBinary64 False 125 10 = Fin (25 / 2)"
    by (simp add: roundBinary64_eval)
  have p: "parseFloat ''12.5'' = Fin (25 / 2)" "parseFloat ''n/a'' = NaN"
    using r by (simp_all add: parseFloat_eval)
  have g: "\<And>x. getProp [''charge_amt'' \<mapsto> x] ''charge_amt'' = x"
    by (simp add: getProp_def)
  show ?thesis
    using numeric_field_on_the_wire [OF f g, of "JStr []" sampleParse]
      numeric_field_on_the_wire [OF f g, of "JStr ''12.5''" sampleParse "''12.5''"]
      numeric_field_on_the_wire [OF f g, of "JBool True" sampleParse _ _ True]
      numeric_field_on_the_wire [OF f g, of "JArr [''n/a'']" sampleParse _ _ _ "[''n/a'']"]
      numeric_field_on_the_wire [OF f g, of "JArr [''12.5'']" sampleParse _ _ _ "[''12.5'']"]
      p
    by simp
qed

text \<open>
  C3 as stated fails: the payload \<^verbatim>\<open>{charge_amt: 'abc'}\<close> is sent with the string
  \<^verbatim>\<open>'abc'\<close>, which is neither a number nor null.
\<close>

theorem numeric_field_number_or_null_counterexample:
  "\<not> isNumberOrNull
       (getProp (sanitizedData sampleParse [''charge_amt'' \<mapsto> JStr ''abc'']) ''charge_amt'')"
proof -
  have f: "''charge_amt'' \<in> set numericFields"
    by (simp add: numericFields_def)
  have p: "parseFloat ''abc'' = NaN"
    by (simp add: parseFloat_eval)
  have "getProp (sanitizedData sampleParse [''charge_amt'' \<mapsto> JStr ''abc'']) ''charge_amt''
      = JStr ''abc''"
    unfolding getProp_sanitizedData_numeric [OF f] by (simp add: getProp_def p)
  then show ?thesis
    by (simp add: isNumberOrNull_def)
qed

subsection \<open>Legacy fields\<close>

lemma numericEntry_Some: "(\<exists>y. numericEntry e = Some y) \<longleftrightarrow> (\<exists>y. e = Some y)"
  by (cases e) (simp_all add: numericEntry_def)

lemma dateEntry_Some: "(\<exists>y. dateEntry parse e = Some y) \<longleftrightarrow> (\<exists>y. e = Some y)"
  by (cases e) (simp_all add: dateEntry_def)

text \<open>
  C8 (as amended). The payload of the PUT has exactly the properties of the update
  data other than the five legacy fields \<^verbatim>\<open>checkNumber\<close>, \<^verbatim>\<open>amount\<close>, \<^verbatim>\<open>status\<close>,
  \<^verbatim>\<open>updatedAt\<close> and \<^verbatim>\<open>createdAt\<close>; a property that is neither legacy nor a
  date or numeric field is sent with its value unchanged.
\<close>

theorem legacy_fields_stripped:
  "dom (sanitizedData parse payload) = dom payload - set legacyFields
   \<and> (k \<notin> set legacyFields \<and> k \<notin> set dateFields \<and> k \<notin> set numericFields \<longrightarrow>
        sanitizedData parse payload k = payload k)"
proof -
  have "\<And>x. x \<in> dom (sanitizedData parse payload) \<longleftrightarrow> x \<in> dom payload - set legacyFields"
    by (simp add: dom_def sanitizedData_apply numericEntry_Some dateEntry_Some)
  then show ?thesis
    by (auto simp: sanitizedData_apply)
qed

text \<open>An update with the legacy \<^verbatim>\<open>status\<close> and the compatibility field \<^verbatim>\<open>visitId\<close>.\<close>

theorem legacy_fields_stripped_witness:
  "dom (sanitizedData sampleParse [''status'' \<mapsto> JStr ''Posted'', ''visitId'' \<mapsto> JStr ''V42''])
     = {''visitId''}
   \<and> sanitizedData sampleParse [''status'' \<mapsto> JStr ''Posted'', ''visitId'' \<mapsto> JStr ''V42'']
       ''visitId'' = Some (JStr ''V42'')"
  using legacy_fields_stripped [of sampleParse
      "[''status'' \<mapsto> JStr ''Posted'', ''visitId'' \<mapsto> JStr ''V42'']" "''visitId''"]
  by (auto simp: legacyFields_def dateFields_def numericFields_def)

text \<open>
  C8 as stated fails: \<^verbatim>\<open>visitId\<close>, which \<^verbatim>\<open>mapApiClaimToVisitClaim\<close> lists among the
  legacy fields and not among the database fields, is sent to the server.
\<close>

theorem non_canonical_field_sent_counterexample:
  "\<not> dom (sanitizedData sampleParse [''visitId'' \<mapsto> JStr ''V42'']) \<subseteq> set canonicalFields"
proof -
  have "sanitizedData sampleParse [''visitId'' \<mapsto> JStr ''V42''] ''visitId'' = Some (JStr ''V42'')"
    by (simp add: sanitizedData_apply legacyFields_def dateFields_def numericFields_def)
  then have "''visitId'' \<in> dom (sanitizedData sampleParse [''visitId'' \<mapsto> JStr ''V42''])"
    by blast
  moreover have "''visitId'' \<notin> set canonicalFields"
    by (simp add: canonicalFields_def)
  ultimately show ?thesis
    by blast
qed

subsection \<open>Date fields\<close>







lemma matchesISODate_nonempty: "matchesISODate s \<Longrightarrow> s \<noteq> []"
  by (auto simp: matchesISODate_def)























section \<open>Properties of the API client's retry\<close>

declare updateClaimAPI.simps [simp del]

lemma updateClaimAPI_responded:
  "put n cid (sanitizedData parse payload) = Responded body \<Longrightarrow>
   updateClaimAPI parse put n cid payload retries = (body, [Put cid (sanitizedData parse payload)])"
  by (subst updateClaimAPI.simps) simp

lemma updateClaimAPI_retry:
  "put n cid (sanitizedData parse payload) = Threw e \<Longrightarrow> 0 < retries \<Longrightarrow>
   updateClaimAPI parse put n cid payload retries =
     (fst (updateClaimAPI parse put (Suc n) cid payload (retries - 1)),
      Put cid (sanitizedData parse payload) # Wait 1500 #
        snd (updateClaimAPI parse put (Suc n) cid payload (retries - 1)))"
  by (subst updateClaimAPI.simps) (simp add: case_prod_beta)

lemma updateClaimAPI_give_up:
  "put n cid (sanitizedData parse payload) = Threw e \<Longrightarrow> \<not> 0 < retries \<Longrightarrow>
   updateClaimAPI parse put n cid payload retries =
     (\<lparr>success = False, data = None,
       errorText = Some (''Failed to update claim with ID '' @ cid),
       message = Some (if err_message e \<noteq> [] then err_message e else ''Network error'')\<rparr>,
      [Put cid (sanitizedData parse payload)])"
  by (subst updateClaimAPI.simps) simp

text \<open>The events of a call: some rounds of a PUT and a pause of 1500 ms, and a last PUT.\<close>

lemma updateClaimAPI_events:
  "\<exists>k. k \<le> nat retries \<and>
     snd (updateClaimAPI parse put n cid payload retries) =
       concat (replicate k [Put cid (sanitizedData parse payload), Wait 1500])
         @ [Put cid (sanitizedData parse payload)]"
proof (induction "nat retries" arbitrary: n retries)
  case 0
  then have r: "\<not> 0 < retries" by simp
  show ?case
  proof (cases "put n cid (sanitizedData parse payload)")
    case (Responded body)
    then show ?thesis
      by (intro exI [of _ 0]) (simp add: updateClaimAPI_responded)
  next
    case (Threw e)
    then show ?thesis
      using r by (intro exI [of _ 0]) (simp add: updateClaimAPI_give_up)
  qed
next
  case (Suc m)
  then have r: "0 < retries" and m: "m = nat (retries - 1)" by simp_all
  show ?case
  proof (cases "put n cid (sanitizedData parse payload)")
    case (Responded body)
    then show ?thesis
      by (intro exI [of _ 0]) (simp add: updateClaimAPI_responded)
  next
    case (Threw e)
    from Suc.hyps(1) [OF m, of "Suc n"] obtain k where
      k: "k \<le> nat (retries - 1)"
        "snd (updateClaimAPI parse put (Suc n) cid payload (retries - 1)) =
           concat (replicate k [Put cid (sanitizedData parse payload), Wait 1500])
             @ [Put cid (sanitizedData parse payload)]"
      by blast
    show ?thesis
      using k r Threw
      by (intro exI [of _ "Suc k"]) (simp add: updateClaimAPI_retry)
  qed
qed

text \<open>Failures, of whatever kind, followed by a response within the budget.\<close>

lemma updateClaimAPI_eventual_response:
  "(\<forall>i<k. \<exists>e. put (n + i) cid (sanitizedData parse payload) = Threw e) \<Longrightarrow>
   put (n + k) cid (sanitizedData parse payload) = Responded body \<Longrightarrow>
   int k \<le> retries \<Longrightarrow>
   updateClaimAPI parse put n cid payload retries =
     (body, concat (replicate k [Put cid (sanitizedData parse payload), Wait 1500])
              @ [Put cid (sanitizedData parse payload)])"
proof (induction k arbitrary: n retries)
  case 0
  then show ?case
    by (simp add: updateClaimAPI_responded)
next
  case (Suc k)
  from Suc.prems(1) obtain e where e: "put n cid (sanitizedData parse payload) = Threw e"
    by (metis add.right_neutral zero_less_Suc)
  have 1: "\<forall>i<k. \<exists>e. put (Suc n + i) cid (sanitizedData parse payload) = Threw e"
    using Suc.prems(1) by (metis Suc_less_eq add_Suc_shift)
  have 2: "put (Suc n + k) cid (sanitizedData parse payload) = Responded body"
    using Suc.prems(2) by simp
  have 3: "int k \<le> retries - 1" and r: "0 < retries"
    using Suc.prems(3) by simp_all
  show ?case
    using Suc.IH [OF 1 2 3] e r by (simp add: updateClaimAPI_retry)
qed

text \<open>Failures through the whole budget.\<close>

lemma updateClaimAPI_exhausted:
  "(\<forall>i<nat retries. \<exists>e. put (n + i) cid (sanitizedData parse payload) = Threw e) \<Longrightarrow>
   put (n + nat retries) cid (sanitizedData parse payload) = Threw e \<Longrightarrow>
   updateClaimAPI parse put n cid payload retries =
     (\<lparr>success = False, data = None,
       errorText = Some (''Failed to update claim with ID '' @ cid),
       message = Some (if err_message e \<noteq> [] then err_message e else ''Network error'')\<rparr>,
      concat (replicate (nat retries) [Put cid (sanitizedData parse payload), Wait 1500])
        @ [Put cid (sanitizedData parse payload)])"
proof (induction "nat retries" arbitrary: n retries)
  case 0
  then show ?case
    by (simp add: updateClaimAPI_give_up)
next
  case (Suc m)
  then have r: "0 < retries" and m: "m = nat (retries - 1)" and s: "nat retries = Suc m"
    by simp_all
  from Suc.prems(1) obtain e0 where e0: "put n cid (sanitizedData parse payload) = Threw e0"
    using s by (metis add.right_neutral zero_less_Suc)
  have 1: "\<forall>i<nat (retries - 1). \<exists>e. put (Suc n + i) cid (sanitizedData parse payload) = Threw e"
    using Suc.prems(1) s m by (metis Suc_less_eq add_Suc_shift)
  have 2: "put (Suc n + nat (retries - 1)) cid (sanitizedData parse payload) = Threw e"
    using Suc.prems(2) s m by simp
  show ?case
    using Suc.hyps(1) [OF m 1 2] e0 r s m by (simp add: updateClaimAPI_retry)
qed

text \<open>
  C5 (as amended). The client retries after every failed attempt, whatever the failure
  (a timeout, a reset connection, a 5xx and also a 4xx response), at most \<open>retries\<close>
  times, with a pause of 1500 ms before each retry: the events are some rounds, at most
  \<open>retries\<close>, of a PUT and a pause, and a last PUT. When the attempts fail up to one
  within the budget that gets a response, that response is the result; when all
  attempts of the budget fail, the result is the failure object with the message of
  the last error.
\<close>

theorem retry_on_every_failure:
  "(\<exists>j. j \<le> nat retries \<and>
      snd (updateClaimAPI parse put n cid payload retries) =
        concat (replicate j [Put cid (sanitizedData parse payload), Wait 1500])
          @ [Put cid (sanitizedData parse payload)])
   \<and> ((\<forall>i<k. \<exists>e. put (n + i) cid (sanitizedData parse payload) = Threw e)
        \<and> put (n + k) cid (sanitizedData parse payload) = Responded body
        \<and> int k \<le> retries \<longrightarrow>
      updateClaimAPI parse put n cid payload retries =
        (body, concat (replicate k [Put cid (sanitizedData parse payload), Wait 1500])
                 @ [Put cid (sanitizedData parse payload)]))
   \<and> ((\<forall>i<nat retries. \<exists>e. put (n + i) cid (sanitizedData parse payload) = Threw e)
        \<and> put (n + nat retries) cid (sanitizedData parse payload) = Threw e' \<longrightarrow>
      updateClaimAPI parse put n cid payload retries =
        (\<lparr>success = False, data = None,
          errorText = Some (''Failed to update claim with ID '' @ cid),
          message = Some (if err_message e' \<noteq> [] then err_message e' else ''Network error'')\<rparr>,
         concat (replicate (nat retries) [Put cid (sanitizedData parse payload), Wait 1500])
           @ [Put cid (sanitizedData parse payload)]))"
  using updateClaimAPI_events [of retries parse put n cid payload]
    updateClaimAPI_eventual_response [of k put n cid parse payload body retries]
    updateClaimAPI_exhausted [of retries put n cid parse payload e']
  by blast

text \<open>
  A timeout followed by a success, with the budget of 3 that the state manager gives;
  and a server that is down, with the default budget of 1.
\<close>

theorem retry_on_every_failure_witness:
  "updateClaimAPI sampleParse (failsOnceThen timeoutError sampleRow) 0 ''42'' sampleUpdate 3 =
     (okBody sampleRow,
      [Put ''42'' (sanitizedData sampleParse sampleUpdate), Wait 1500,
       Put ''42'' (sanitizedData sampleParse sampleUpdate)])
   \<and> updateClaimAPI sampleParse (alwaysFails networkError) 0 ''42'' sampleUpdate 1 =
     (\<lparr>success = False, data = None,
       errorText = Some ''Failed to update claim with ID 42'',
       message = Some ''Network Error''\<rparr>,
      [Put ''42'' (sanitizedData sampleParse sampleUpdate), Wait 1500,
       Put ''42'' (sanitizedData sampleParse sampleUpdate)])"
  using retry_on_every_failure [of 3 sampleParse "failsOnceThen timeoutError sampleRow" 0
      "''42''" sampleUpdate 1 "okBody sampleRow"]
    retry_on_every_failure [of 1 sampleParse "alwaysFails networkError" 0
      "''42''" sampleUpdate 0 undefined networkError]
  by (simp add: failsOnceThen_def alwaysFails_def networkError_def)

text \<open>
  C5 as stated fails: a 404 response to the first PUT is followed by a pause and a
  second PUT.
\<close>

theorem not_found_is_retried_counterexample:
  "err_status notFoundError = Some 404
   \<and> snd (updateClaimAPI sampleParse (failsOnceThen notFoundError sampleRow) 0 ''42''
          sampleUpdate 1) =
       [Put ''42'' (sanitizedData sampleParse sampleUpdate), Wait 1500,
        Put ''42'' (sanitizedData sampleParse sampleUpdate)]"
proof -
  have 0: "failsOnceThen notFoundError sampleRow 0 ''42'' (sanitizedData sampleParse sampleUpdate)
      = Threw notFoundError"
    by (simp add: failsOnceThen_def)
  have 1: "failsOnceThen notFoundError sampleRow (Suc 0) ''42''
      (sanitizedData sampleParse sampleUpdate) = Responded (okBody sampleRow)"
    by (simp add: failsOnceThen_def)
  show ?thesis
    using updateClaimAPI_retry [of "failsOnceThen notFoundError sampleRow" 0 "''42''"
        sampleParse sampleUpdate notFoundError 1, OF 0]
      updateClaimAPI_responded [of "failsOnceThen notFoundError sampleRow" "Suc 0" "''42''"
        sampleParse sampleUpdate "okBody sampleRow" 0, OF 1]
    by (simp add: notFoundError_def)
qed


section \<open>Properties of the claim state manager\<close>

subsection \<open>Server rows in the provider's shape\<close>

lemma getProp_Some: "obj k = Some v \<Longrightarrow> getProp obj k = v"
  by (simp add: getProp_def)

lemmas mapApi_lookup = mapApiClaimToVisitClaim_def Let_def map_of_Cons_code

lemma mapApiClaimToVisitClaim_date_entries:
  "mapApiClaimToVisitClaim rt row ''charge_dt'' = Some (js_or (getProp row ''charge_dt'') JNull)"
  "mapApiClaimToVisitClaim rt row ''prim_post_dt'' = Some (js_or (getProp row ''prim_post_dt'') JNull)"
  "mapApiClaimToVisitClaim rt row ''prim_recv_dt'' = Some (js_or (getProp row ''prim_recv_dt'') JNull)"
  "mapApiClaimToVisitClaim rt row ''sec_post_dt'' = Some (js_or (getProp row ''sec_post_dt'') JNull)"
  "mapApiClaimToVisitClaim rt row ''sec_recv_dt'' = Some (js_or (getProp row ''sec_recv_dt'') JNull)"
  "mapApiClaimToVisitClaim rt row ''pat_recv_dt'' = Some (js_or (getProp row ''pat_recv_dt'') JNull)"
  by (simp_all add: mapApi_lookup del: map_of.simps)

lemma mapApiClaimToVisitClaim_date:
  assumes "f \<in> set dateFields"
  shows "getProp (mapApiClaimToVisitClaim rt row) f = js_or (getProp row f) JNull"
proof -
  from assms have "f = ''charge_dt'' \<or> f = ''prim_post_dt'' \<or> f = ''prim_recv_dt''
      \<or> f = ''sec_post_dt'' \<or> f = ''sec_recv_dt'' \<or> f = ''pat_recv_dt''"
    by (simp add: dateFields_def)
  then have "mapApiClaimToVisitClaim rt row f = Some (js_or (getProp row f) JNull)"
    using mapApiClaimToVisitClaim_date_entries [of rt row] by (elim disjE) simp_all
  then show ?thesis
    by (rule getProp_Some)
qed

lemma mapApiClaimToVisitClaim_numeric_entries:
  "mapApiClaimToVisitClaim rt row ''charge_amt'' = Some (definedOrNull (getProp row ''charge_amt''))"
  "mapApiClaimToVisitClaim rt row ''allowed_amt'' = Some (definedOrNull (getProp row ''allowed_amt''))"
  "mapApiClaimToVisitClaim rt row ''allowed_add_amt''
     = Some (definedOrNull (getProp row ''allowed_add_amt''))"
  "mapApiClaimToVisitClaim rt row ''allowed_exp_amt''
     = Some (definedOrNull (getProp row ''allowed_exp_amt''))"
  "mapApiClaimToVisitClaim rt row ''total_amt'' = Some (definedOrNull (getProp row ''total_amt''))"
  "mapApiClaimToVisitClaim rt row ''charges_adj_amt''
     = Some (definedOrNull (getProp row ''charges_adj_amt''))"
  "mapApiClaimToVisitClaim rt row ''write_off_amt''
     = Some (definedOrNull (getProp row ''write_off_amt''))"
  "mapApiClaimToVisitClaim rt row ''bal_amt'' = Some (definedOrNull (getProp row ''bal_amt''))"
  "mapApiClaimToVisitClaim rt row ''reimb_pct'' = Some (definedOrNull (getProp row ''reimb_pct''))"
  "mapApiClaimToVisitClaim rt row ''prim_amt'' = Some (definedOrNull (getProp row ''prim_amt''))"
  "mapApiClaimToVisitClaim rt row ''prim_chk_amt''
     = Some (definedOrNull (getProp row ''prim_chk_amt''))"
  "mapApiClaimToVisitClaim rt row ''sec_amt'' = Some (definedOrNull (getProp row ''sec_amt''))"
  "mapApiClaimToVisitClaim rt row ''sec_chk_amt''
     = Some (definedOrNull (getProp row ''sec_chk_amt''))"
  "mapApiClaimToVisitClaim rt row ''pat_amt'' = Some (definedOrNull (getProp row ''pat_amt''))"
  by (simp_all add: mapApi_lookup del: map_of.simps)

lemma mapApiClaimToVisitClaim_numeric:
  assumes "f \<in> set numericFields"
  shows "getProp (mapApiClaimToVisitClaim rt row) f = definedOrNull (getProp row f)"
proof -
  from assms have "f = ''charge_amt'' \<or> f = ''allowed_amt'' \<or> f = ''allowed_add_amt''
    \<or> f = ''allowed_exp_amt'' \<or> f = ''total_amt'' \<or> f = ''charges_adj_amt''
    \<or> f = ''write_off_amt'' \<or> f = ''bal_amt'' \<or> f = ''reimb_pct'' \<or> f = ''prim_amt''
    \<or> f = ''prim_chk_amt'' \<or> f = ''sec_amt'' \<or> f = ''sec_chk_amt'' \<or> f = ''pat_amt''"
    by (simp add: numericFields_def)
  then have "mapApiClaimToVisitClaim rt row f = Some (definedOrNull (getProp row f))"
    using mapApiClaimToVisitClaim_numeric_entries [of rt row] by (elim disjE) simp_all
  then show ?thesis
    by (rule getProp_Some)
qed

lemma mapApiClaimToVisitClaim_id:
  "getProp (mapApiClaimToVisitClaim rt row) ''id'' = getProp row ''id''"
  by (rule getProp_Some) (simp add: mapApi_lookup del: map_of.simps)

subsection \<open>The lists and the current claim\<close>


lemma strict_eq_right_refl: "strict_eq a b \<Longrightarrow> strict_eq b b"
  by (cases "(a, b)" rule: strict_eq.cases) auto

lemma replaceById_twice:
  "getProp x ''id'' = key \<Longrightarrow> replaceById key y (replaceById key x cs) = replaceById key y cs"
  by (induction cs) (auto simp: replaceById_def dest: strict_eq_right_refl)

lemma setClaim_twice:
  "getProp x ''id'' = key \<Longrightarrow>
   claims (setClaim key y (setClaim key x st)) = replaceById key y (claims st)
   \<and> searchResults (setClaim key y (setClaim key x st)) = replaceById key y (searchResults st)
   \<and> currentClaim (setClaim key y (setClaim key x st)) = Some y"
  by (simp add: setClaim_def replaceById_twice)

text \<open>
  C10. When no claim is selected, \<^verbatim>\<open>updateClaim\<close> rejects with the error
  \<^verbatim>\<open>No current claim selected to update\<close>: no request is made, no optimistic state is
  ever set, and the current claim, the claims list and the search results are as
  before; the message is stored as the provider's error.
\<close>

theorem update_without_current_claim:
  assumes "currentClaim st = None"
  shows "outcome (updateClaim rt srv user st upd) = Rejected ''No current claim selected to update''
       \<and> events (updateClaim rt srv user st upd) = []
       \<and> inFlight (updateClaim rt srv user st upd) = None
       \<and> currentClaim (final (updateClaim rt srv user st upd)) = currentClaim st
       \<and> claims (final (updateClaim rt srv user st upd)) = claims st
       \<and> searchResults (final (updateClaim rt srv user st upd)) = searchResults st
       \<and> error (final (updateClaim rt srv user st upd))
           = Some ''No current claim selected to update''"
  using assms by (simp add: updateClaim_def rejectWith_def)

lemma updateClaim_inFlight:
  assumes "currentClaim st = Some cur"
    and "getProp cur ''id'' \<noteq> JUndefined" and "getProp cur ''id'' \<noteq> JNull"
  shows "inFlight (updateClaim rt srv user st upd) =
     Some (setClaim (getProp cur ''id'') (cur ++ formatDateFields (Date_parse rt) upd)
             (st\<lparr>isLoading := True, error := None\<rparr>))"
  using assms
  by (simp add: updateClaim_def rejectWith_def Let_def split: prod.splits option.splits)

lemma updateClaim_success:
  assumes "currentClaim st = Some cur"
    and "getProp cur ''id'' \<noteq> JUndefined" and "getProp cur ''id'' \<noteq> JNull"
    and "updateClaimAPI (Date_parse rt) (http_put srv) 0
           (js_toString (Number_toString rt) (getProp cur ''id''))
           (claimWithUserInfo user (formatDateFields (Date_parse rt) upd)) 3 = (response, evs)"
    and "successRow response = Some row"
  shows "updateClaim rt srv user st upd =
     \<lparr>final = (setClaim (getProp row ''id'') (mapApiClaimToVisitClaim rt row)
         (setClaim (getProp cur ''id'') (cur ++ formatDateFields (Date_parse rt) upd)
            (st\<lparr>isLoading := True, error := None\<rparr>)))\<lparr>isLoading := False\<rparr>,
      inFlight = Some (setClaim (getProp cur ''id'') (cur ++ formatDateFields (Date_parse rt) upd)
            (st\<lparr>isLoading := True, error := None\<rparr>)),
      outcome = Resolved (mapApiClaimToVisitClaim rt row), events = evs\<rparr>"
  using assms
  by (simp add: updateClaim_def Let_def mapApiClaimToVisitClaim_id)

lemma updateClaim_failure:
  assumes "currentClaim st = Some cur"
    and "getProp cur ''id'' \<noteq> JUndefined" and "getProp cur ''id'' \<noteq> JNull"
    and "updateClaimAPI (Date_parse rt) (http_put srv) 0
           (js_toString (Number_toString rt) (getProp cur ''id''))
           (claimWithUserInfo user (formatDateFields (Date_parse rt) upd)) 3 = (response, evs)"
    and "successRow response = None"
  shows "updateClaim rt srv user st upd =
     rejectWith
       (case successRow (fetchClaimById (http_get srv)
               (js_toString (Number_toString rt) (getProp cur ''id''))) of
          Some row \<Rightarrow>
            setClaim (getProp cur ''id'') (mapApiClaimToVisitClaim rt row)
              ((setClaim (getProp cur ''id'') (cur ++ formatDateFields (Date_parse rt) upd)
                 (st\<lparr>isLoading := True, error := None\<rparr>))\<lparr>error := Some (failureMessage response)\<rparr>)
        | None \<Rightarrow>
            (setClaim (getProp cur ''id'') (cur ++ formatDateFields (Date_parse rt) upd)
               (st\<lparr>isLoading := True, error := None\<rparr>))\<lparr>error := Some (failureMessage response)\<rparr>)
       (Some (setClaim (getProp cur ''id'') (cur ++ formatDateFields (Date_parse rt) upd)
            (st\<lparr>isLoading := True, error := None\<rparr>)))
       (evs @ [Get (js_toString (Number_toString rt) (getProp cur ''id''))])
       (failureMessage response)"
  using assms
  by (simp add: updateClaim_def Let_def)

theorem update_without_current_claim_witness:
  "outcome (updateClaim sampleRuntime offline None emptySelection sampleUpdate)
     = Rejected ''No current claim selected to update''
   \<and> events (updateClaim sampleRuntime offline None emptySelection sampleUpdate) = []
   \<and> claims (final (updateClaim sampleRuntime offline None emptySelection sampleUpdate))
     = [sampleClaim]
   \<and> searchResults (final (updateClaim sampleRuntime offline None emptySelection sampleUpdate))
     = []
   \<and> currentClaim (final (updateClaim sampleRuntime offline None emptySelection sampleUpdate))
     = None"
  using update_without_current_claim [of emptySelection sampleRuntime offline None sampleUpdate]
  by (simp add: emptySelection_def)

subsection \<open>The provider's date pass\<close>

lemma formatDateFieldsStep_upd:
  "formatDateFieldsStep parse f obj = obj(f := providerDateEntry parse (obj f))"
  by (auto simp: formatDateFieldsStep_def providerDateEntry_def getProp_def
      split: option.splits)

lemma formatDateFields_apply:
  "formatDateFields parse d k =
     (if k \<in> set dateFields then providerDateEntry parse (d k) else d k)"
proof -
  have s: "formatDateFieldsStep parse = (\<lambda>f obj. obj(f := providerDateEntry parse (obj f)))"
    by (intro ext) (simp add: formatDateFieldsStep_upd)
  show ?thesis
    unfolding formatDateFields_def s by (rule fold_upd_apply [OF fields_distinct(2)])
qed

lemma formatDateFields_no_dates:
  assumes "\<forall>f \<in> set dateFields. \<not> truthy (getProp d f)"
  shows "formatDateFields parse d = d"
proof
  fix k
  show "formatDateFields parse d k = d k"
    using assms
    by (auto simp: formatDateFields_apply providerDateEntry_def getProp_def
        split: option.splits)
qed

subsection \<open>Optimistic update and commit\<close>

lemma replaceById_length: "length (replaceById key claim cs) = length cs"
  by (simp add: replaceById_def)

lemma replaceById_nth:
  "i < length cs \<Longrightarrow>
   replaceById key claim cs ! i
     = (if strict_eq (getProp (cs ! i) ''id'') key then claim else cs ! i)"
  by (simp add: replaceById_def)

text \<open>
  C6 (as amended). With a claim \<open>cur\<close> selected (and carrying an id), while the PUT is
  in flight the current claim is \<open>cur\<close> overridden by the update (its date fields as
  the provider's date pass formats them; every other property as given), and the
  claims list and the search results keep their length and order, every entry whose id
  is strictly equal to the id of \<open>cur\<close> being that merged claim and every other entry
  being as before. When the API call succeeds with the row \<open>row\<close>, the call resolves
  with the row in the provider's shape, which becomes the current claim, its date and
  numeric fields being the server's; in both lists every entry of the in-flight state
  whose id is strictly equal to the id of the row is replaced by the row, and every
  other entry stays as it was in flight. So, when the row carries the id of \<open>cur\<close> and
  the update leaves the id alone, every entry with the id of \<open>cur\<close> is the server's
  row and every other entry is as before the update.
\<close>

theorem optimistic_then_committed:
  assumes "currentClaim st = Some cur"
    and "getProp cur ''id'' \<noteq> JUndefined" and "getProp cur ''id'' \<noteq> JNull"
    and "updateClaimAPI (Date_parse rt) (http_put srv) 0
           (js_toString (Number_toString rt) (getProp cur ''id''))
           (claimWithUserInfo user (formatDateFields (Date_parse rt) upd)) 3 = (response, evs)"
  shows "\<exists>st2. inFlight (updateClaim rt srv user st upd) = Some st2
       \<and> currentClaim st2 = Some (cur ++ formatDateFields (Date_parse rt) upd)
       \<and> (k \<notin> set dateFields \<longrightarrow>
            (cur ++ formatDateFields (Date_parse rt) upd) k = (cur ++ upd) k)
       \<and> length (claims st2) = length (claims st)
       \<and> (\<forall>i < length (claims st).
            claims st2 ! i
              = (if strict_eq (getProp (claims st ! i) ''id'') (getProp cur ''id'')
                 then cur ++ formatDateFields (Date_parse rt) upd else claims st ! i))
       \<and> length (searchResults st2) = length (searchResults st)
       \<and> (\<forall>i < length (searchResults st).
            searchResults st2 ! i
              = (if strict_eq (getProp (searchResults st ! i) ''id'') (getProp cur ''id'')
                 then cur ++ formatDateFields (Date_parse rt) upd else searchResults st ! i))
       \<and> (successRow response = Some row \<longrightarrow>
            outcome (updateClaim rt srv user st upd) = Resolved (mapApiClaimToVisitClaim rt row)
            \<and> currentClaim (final (updateClaim rt srv user st upd))
                = Some (mapApiClaimToVisitClaim rt row)
            \<and> error (final (updateClaim rt srv user st upd)) = None
            \<and> (f \<in> set dateFields \<longrightarrow>
                 getProp (mapApiClaimToVisitClaim rt row) f = js_or (getProp row f) JNull)
            \<and> (f \<in> set numericFields \<longrightarrow>
                 getProp (mapApiClaimToVisitClaim rt row) f = definedOrNull (getProp row f))
            \<and> length (claims (final (updateClaim rt srv user st upd))) = length (claims st)
            \<and> (\<forall>i < length (claims st).
                 claims (final (updateClaim rt srv user st upd)) ! i
                   = (if strict_eq (getProp (claims st2 ! i) ''id'') (getProp row ''id'')
                      then mapApiClaimToVisitClaim rt row else claims st2 ! i))
            \<and> length (searchResults (final (updateClaim rt srv user st upd)))
                = length (searchResults st)
            \<and> (\<forall>i < length (searchResults st).
                 searchResults (final (updateClaim rt srv user st upd)) ! i
                   = (if strict_eq (getProp (searchResults st2 ! i) ''id'') (getProp row ''id'')
                      then mapApiClaimToVisitClaim rt row else searchResults st2 ! i))
            \<and> (getProp row ''id'' = getProp cur ''id''
                 \<and> getProp (cur ++ formatDateFields (Date_parse rt) upd) ''id'' = getProp cur ''id''
                 \<longrightarrow>
                 (\<forall>i < length (claims st).
                    claims (final (updateClaim rt srv user st upd)) ! i
                      = (if strict_eq (getProp (claims st ! i) ''id'') (getProp cur ''id'')
                         then mapApiClaimToVisitClaim rt row else claims st ! i))
                 \<and> (\<forall>i < length (searchResults st).
                    searchResults (final (updateClaim rt srv user st upd)) ! i
                      = (if strict_eq (getProp (searchResults st ! i) ''id'') (getProp cur ''id'')
                         then mapApiClaimToVisitClaim rt row else searchResults st ! i))))"
proof -
  let ?merged = "cur ++ formatDateFields (Date_parse rt) upd"
  let ?st2 = "setClaim (getProp cur ''id'') ?merged (st\<lparr>isLoading := True, error := None\<rparr>)"
  let ?fin = "final (updateClaim rt srv user st upd)"
  let ?mapped = "mapApiClaimToVisitClaim rt row"
  have fl: "inFlight (updateClaim rt srv user st upd) = Some ?st2"
    by (rule updateClaim_inFlight [OF assms(1-3)])
  have cl: "claims ?st2 = replaceById (getProp cur ''id'') ?merged (claims st)"
    and sr: "searchResults ?st2 = replaceById (getProp cur ''id'') ?merged (searchResults st)"
    and cc: "currentClaim ?st2 = Some ?merged"
    by (simp_all add: setClaim_def)
  have b: "k \<notin> set dateFields \<longrightarrow> ?merged k = (cur ++ upd) k"
    by (simp add: map_add_def formatDateFields_apply)
  have c: "successRow response = Some row \<Longrightarrow>
      outcome (updateClaim rt srv user st upd) = Resolved ?mapped
      \<and> currentClaim ?fin = Some ?mapped \<and> error ?fin = None
      \<and> claims ?fin = replaceById (getProp row ''id'') ?mapped (claims ?st2)
      \<and> searchResults ?fin = replaceById (getProp row ''id'') ?mapped (searchResults ?st2)"
    by (simp add: updateClaim_success [OF assms] setClaim_def)
  have d: "successRow response = Some row \<Longrightarrow> getProp row ''id'' = getProp cur ''id'' \<Longrightarrow>
      getProp ?merged ''id'' = getProp cur ''id'' \<Longrightarrow>
      claims ?fin = replaceById (getProp cur ''id'') ?mapped (claims st)
      \<and> searchResults ?fin = replaceById (getProp cur ''id'') ?mapped (searchResults st)"
    using setClaim_twice [of ?merged "getProp cur ''id''" ?mapped
        "st\<lparr>isLoading := True, error := None\<rparr>"]
    by (simp add: updateClaim_success [OF assms] setClaim_def)
  have e: "(f \<in> set dateFields \<longrightarrow> getProp ?mapped f = js_or (getProp row f) JNull)
      \<and> (f \<in> set numericFields \<longrightarrow> getProp ?mapped f = definedOrNull (getProp row f))"
    using mapApiClaimToVisitClaim_date [of f rt row] mapApiClaimToVisitClaim_numeric [of f rt row]
    by blast
  have inflight: "length (claims ?st2) = length (claims st)
      \<and> (\<forall>i < length (claims st).
            claims ?st2 ! i
              = (if strict_eq (getProp (claims st ! i) ''id'') (getProp cur ''id'')
                 then ?merged else claims st ! i))
      \<and> length (searchResults ?st2) = length (searchResults st)
      \<and> (\<forall>i < length (searchResults st).
            searchResults ?st2 ! i
              = (if strict_eq (getProp (searchResults st ! i) ''id'') (getProp cur ''id'')
                 then ?merged else searchResults st ! i))"
    unfolding cl sr by (simp add: replaceById_length replaceById_nth)
  have committed: "successRow response = Some row \<Longrightarrow>
      length (claims ?fin) = length (claims st)
      \<and> (\<forall>i < length (claims st).
            claims ?fin ! i
              = (if strict_eq (getProp (claims ?st2 ! i) ''id'') (getProp row ''id'')
                 then ?mapped else claims ?st2 ! i))
      \<and> length (searchResults ?fin) = length (searchResults st)
      \<and> (\<forall>i < length (searchResults st).
            searchResults ?fin ! i
              = (if strict_eq (getProp (searchResults ?st2 ! i) ''id'') (getProp row ''id'')
                 then ?mapped else searchResults ?st2 ! i))"
  proof -
    assume s: "successRow response = Some row"
    have l: "length (claims ?st2) = length (claims st)"
      "length (searchResults ?st2) = length (searchResults st)"
      using inflight by simp_all
    show ?thesis
      using c [OF s] l by (simp add: replaceById_length replaceById_nth)
  qed
  have same: "successRow response = Some row \<Longrightarrow> getProp row ''id'' = getProp cur ''id'' \<Longrightarrow>
      getProp ?merged ''id'' = getProp cur ''id'' \<Longrightarrow>
      (\<forall>i < length (claims st).
          claims ?fin ! i
            = (if strict_eq (getProp (claims st ! i) ''id'') (getProp cur ''id'')
               then ?mapped else claims st ! i))
      \<and> (\<forall>i < length (searchResults st).
          searchResults ?fin ! i
            = (if strict_eq (getProp (searchResults st ! i) ''id'') (getProp cur ''id'')
               then ?mapped else searchResults st ! i))"
    using d by (simp add: replaceById_nth)
  show ?thesis
    apply (rule exI [of _ ?st2])
    using fl cc b c e inflight committed same
    apply blast
    done
qed

subsection \<open>The sample edit\<close>

declare natDigits.simps [simp del]

lemma sample_cid:
  "js_toString (Number_toString sampleRuntime) (getProp sampleClaim ''id'') = ''42''"
  by (simp add: sampleRuntime_def sampleClaim_def getProp_def sampleNumberToString_def
      natDigits.simps [of 42] natDigits.simps [of 4] digitChar_def)

lemma sample_current:
  "currentClaim sampleState = Some sampleClaim"
  "getProp sampleClaim ''id'' \<noteq> JUndefined" "getProp sampleClaim ''id'' \<noteq> JNull"
  by (simp_all add: sampleState_def sampleClaim_def getProp_def)

lemma sample_formatted: "formatDateFields (Date_parse sampleRuntime) sampleUpdate = sampleUpdate"
  by (rule formatDateFields_no_dates) (simp add: dateFields_def sampleUpdate_def getProp_def)

lemma sample_lists:
  "replaceById (getProp sampleClaim ''id'') c (claims sampleState) = [c]"
  "replaceById (getProp sampleClaim ''id'') c (searchResults sampleState) = [c]"
  by (simp_all add: replaceById_def sampleState_def sampleClaim_def getProp_def)

lemma sample_ids:
  "getProp sampleRow ''id'' = getProp sampleClaim ''id''"
  "getProp (sampleClaim ++ sampleUpdate) ''id'' = getProp sampleClaim ''id''"
  by (simp_all add: sampleRow_def sampleClaim_def sampleUpdate_def getProp_def)

lemma sample_api:
  "updateClaimAPI (Date_parse sampleRuntime) (http_put flaky) 0
      (js_toString (Number_toString sampleRuntime) (getProp sampleClaim ''id''))
      (claimWithUserInfo None (formatDateFields (Date_parse sampleRuntime) sampleUpdate)) 3
    = (okBody sampleRow,
       [Put ''42'' (sanitizedData sampleParse (claimWithUserInfo None sampleUpdate)), Wait 1500,
        Put ''42'' (sanitizedData sampleParse (claimWithUserInfo None sampleUpdate))])"
  using updateClaimAPI_eventual_response [of 1 "failsOnceThen timeoutError sampleRow" 0
      "''42''" sampleParse "claimWithUserInfo None sampleUpdate" "okBody sampleRow" 3]
  by (simp add: sample_cid sample_formatted flaky_def failsOnceThen_def)
    (simp add: sampleRuntime_def)

lemma list_by_nth2:
  "length xs = 2 \<Longrightarrow> xs ! 0 = a \<Longrightarrow> xs ! 1 = b \<Longrightarrow> xs = [a, b]"
  by (cases xs; cases "tl xs") auto

text \<open>
  A timeout, then the server's row, the lists holding a second claim beside the
  selected one: in flight the selected claim is the merged one and the other claim is
  untouched; then the current claim and the entry of the selected claim in both lists
  are the server's row, and the other claim is as before.
\<close>

theorem optimistic_then_committed_witness:
  "outcome (updateClaim sampleRuntime flaky None listedState sampleUpdate)
     = Resolved (mapApiClaimToVisitClaim sampleRuntime sampleRow)
   \<and> currentClaim (final (updateClaim sampleRuntime flaky None listedState sampleUpdate))
     = Some (mapApiClaimToVisitClaim sampleRuntime sampleRow)
   \<and> claims (final (updateClaim sampleRuntime flaky None listedState sampleUpdate))
     = [otherClaim, mapApiClaimToVisitClaim sampleRuntime sampleRow]
   \<and> searchResults (final (updateClaim sampleRuntime flaky None listedState sampleUpdate))
     = [mapApiClaimToVisitClaim sampleRuntime sampleRow, otherClaim]
   \<and> (\<exists>st2. inFlight (updateClaim sampleRuntime flaky None listedState sampleUpdate) = Some st2
         \<and> currentClaim st2 = Some (sampleClaim ++ sampleUpdate)
         \<and> claims st2 = [otherClaim, sampleClaim ++ sampleUpdate]
         \<and> searchResults st2 = [sampleClaim ++ sampleUpdate, otherClaim])
   \<and> getProp (sampleClaim ++ sampleUpdate) ''charge_amt'' = JNum (Fin 200)
   \<and> getProp (mapApiClaimToVisitClaim sampleRuntime sampleRow) ''charge_amt'' = JNum (Fin 200)
   \<and> getProp (mapApiClaimToVisitClaim sampleRuntime sampleRow) ''charge_dt'' = JNull"
proof -
  let ?run = "updateClaim sampleRuntime flaky None listedState sampleUpdate"
  let ?mapped = "mapApiClaimToVisitClaim sampleRuntime sampleRow"
  have cur: "currentClaim listedState = Some sampleClaim"
    by (simp add: listedState_def)
  have row: "successRow (okBody sampleRow) = Some sampleRow"
    by (simp add: successRow_def okBody_def)
  have fields: "''charge_dt'' \<in> set dateFields" "''charge_amt'' \<in> set numericFields"
    by (simp_all add: dateFields_def numericFields_def)
  have server: "definedOrNull (getProp sampleRow ''charge_amt'') = JNum (Fin 200)"
    "js_or (getProp sampleRow ''charge_dt'') JNull = JNull"
    by (simp_all add: sampleRow_def getProp_def definedOrNull_def js_or_def)
  have ids: "strict_eq (getProp sampleClaim ''id'') (getProp sampleClaim ''id'')"
    "\<not> strict_eq (getProp otherClaim ''id'') (getProp sampleClaim ''id'')"
    by (simp_all add: sampleClaim_def otherClaim_def getProp_def)
  have ls: "claims listedState = [otherClaim, sampleClaim]"
    "searchResults listedState = [sampleClaim, otherClaim]"
    by (simp_all add: listedState_def)
  have all2: "\<And>P. (\<forall>i < Suc (Suc 0). P i) \<longleftrightarrow> P 0 \<and> P (Suc 0)"
    by (auto simp: less_Suc_eq)
  obtain st2 where st2: "inFlight ?run = Some st2"
    "currentClaim st2 = Some (sampleClaim ++ sampleUpdate)"
    "length (claims st2) = 2" "claims st2 ! 0 = otherClaim"
    "claims st2 ! 1 = sampleClaim ++ sampleUpdate"
    "length (searchResults st2) = 2" "searchResults st2 ! 0 = sampleClaim ++ sampleUpdate"
    "searchResults st2 ! 1 = otherClaim"
    and fin: "outcome ?run = Resolved ?mapped" "currentClaim (final ?run) = Some ?mapped"
    "getProp ?mapped ''charge_amt'' = JNum (Fin 200)" "getProp ?mapped ''charge_dt'' = JNull"
    "length (claims (final ?run)) = 2" "claims (final ?run) ! 0 = otherClaim"
    "claims (final ?run) ! 1 = ?mapped"
    "length (searchResults (final ?run)) = 2" "searchResults (final ?run) ! 0 = ?mapped"
    "searchResults (final ?run) ! 1 = otherClaim"
    using optimistic_then_committed [OF cur sample_current(2,3) sample_api,
        of "''id''" sampleRow "''charge_dt''"]
      optimistic_then_committed [OF cur sample_current(2,3) sample_api,
        of "''id''" sampleRow "''charge_amt''"]
      row sample_ids fields
    by (auto simp: sample_formatted server ls ids all2)
  have amount: "getProp (sampleClaim ++ sampleUpdate) ''charge_amt'' = JNum (Fin 200)"
    by (simp add: sampleClaim_def sampleUpdate_def getProp_def)
  show ?thesis
    using st2 fin amount
      list_by_nth2 [of "claims st2" otherClaim "sampleClaim ++ sampleUpdate"]
      list_by_nth2 [of "searchResults st2" "sampleClaim ++ sampleUpdate" otherClaim]
      list_by_nth2 [of "claims (final ?run)" otherClaim ?mapped]
      list_by_nth2 [of "searchResults (final ?run)" ?mapped otherClaim]
    by simp
qed

text \<open>
  C6 as stated fails: when the server writes the id of the row as the string
  \<^verbatim>\<open>'42'\<close>, no entry of the lists has an id strictly equal to it, so after the
  success the current claim is the server's row while both lists keep the optimistic
  claim.
\<close>

theorem lists_keep_optimistic_claim_counterexample:
  "currentClaim (final (updateClaim sampleRuntime stringIdServer None sampleState sampleUpdate))
     = Some (mapApiClaimToVisitClaim sampleRuntime stringIdRow)
   \<and> claims (final (updateClaim sampleRuntime stringIdServer None sampleState sampleUpdate))
     = [sampleClaim ++ sampleUpdate]
   \<and> searchResults (final (updateClaim sampleRuntime stringIdServer None sampleState sampleUpdate))
     = [sampleClaim ++ sampleUpdate]
   \<and> sampleClaim ++ sampleUpdate \<noteq> mapApiClaimToVisitClaim sampleRuntime stringIdRow"
proof -
  have api: "updateClaimAPI (Date_parse sampleRuntime) (http_put stringIdServer) 0
      (js_toString (Number_toString sampleRuntime) (getProp sampleClaim ''id''))
      (claimWithUserInfo None (formatDateFields (Date_parse sampleRuntime) sampleUpdate)) 3
      = (okBody stringIdRow,
         [Put ''42'' (sanitizedData sampleParse (claimWithUserInfo None sampleUpdate))])"
    by (simp add: updateClaimAPI.simps stringIdServer_def sample_cid sample_formatted)
      (simp add: sampleRuntime_def)
  have row: "successRow (okBody stringIdRow) = Some stringIdRow"
    by (simp add: successRow_def okBody_def)
  have id: "getProp stringIdRow ''id'' = JStr ''42''"
    "getProp (sampleClaim ++ sampleUpdate) ''id'' = JNum (Fin 42)"
    "getProp sampleClaim ''id'' = JNum (Fin 42)"
    by (simp_all add: stringIdRow_def sampleClaim_def sampleUpdate_def getProp_def)
  have ne: "sampleClaim ++ sampleUpdate \<noteq> mapApiClaimToVisitClaim sampleRuntime stringIdRow"
  proof
    assume "sampleClaim ++ sampleUpdate = mapApiClaimToVisitClaim sampleRuntime stringIdRow"
    then have "getProp (sampleClaim ++ sampleUpdate) ''id''
        = getProp (mapApiClaimToVisitClaim sampleRuntime stringIdRow) ''id''"
      by simp
    then show False
      by (simp add: mapApiClaimToVisitClaim_id id)
  qed
  have "final (updateClaim sampleRuntime stringIdServer None sampleState sampleUpdate)
      = (setClaim (JStr ''42'') (mapApiClaimToVisitClaim sampleRuntime stringIdRow)
          (setClaim (JNum (Fin 42)) (sampleClaim ++ sampleUpdate)
            (sampleState\<lparr>isLoading := True, error := None\<rparr>)))\<lparr>isLoading := False\<rparr>"
    by (simp add: updateClaim_success [OF sample_current api row] id sample_formatted)
  then show ?thesis
    using ne by (simp add: setClaim_def replaceById_def sampleState_def id)
qed

subsection \<open>Failure of the update\<close>

text \<open>
  When the API call fails and the claim is fetched again, the fetched row (in the
  provider's shape) becomes the current claim and, the update leaving the id alone,
  replaces every entry of both lists with the claim's id; the failure message is
  stored and the call rejects with it.
\<close>

lemma rollback_when_refetch_succeeds:
  assumes "currentClaim st = Some cur"
    and "getProp cur ''id'' \<noteq> JUndefined" and "getProp cur ''id'' \<noteq> JNull"
    and "updateClaimAPI (Date_parse rt) (http_put srv) 0
           (js_toString (Number_toString rt) (getProp cur ''id''))
           (claimWithUserInfo user (formatDateFields (Date_parse rt) upd)) 3 = (response, evs)"
    and "successRow response = None"
    and "successRow (fetchClaimById (http_get srv)
           (js_toString (Number_toString rt) (getProp cur ''id''))) = Some row"
    and "getProp (cur ++ formatDateFields (Date_parse rt) upd) ''id'' = getProp cur ''id''"
  shows "currentClaim (final (updateClaim rt srv user st upd))
           = Some (mapApiClaimToVisitClaim rt row)
       \<and> claims (final (updateClaim rt srv user st upd))
           = replaceById (getProp cur ''id'') (mapApiClaimToVisitClaim rt row) (claims st)
       \<and> searchResults (final (updateClaim rt srv user st upd))
           = replaceById (getProp cur ''id'') (mapApiClaimToVisitClaim rt row) (searchResults st)
       \<and> error (final (updateClaim rt srv user st upd)) = Some (failureMessage response)
       \<and> outcome (updateClaim rt srv user st upd) = Rejected (failureMessage response)"
  using assms(6)
    replaceById_twice [OF assms(7), of "mapApiClaimToVisitClaim rt row"]
  by (simp add: updateClaim_failure [OF assms(1-5)] rejectWith_def setClaim_def)

text \<open>
  When the API call fails and the fetch fails too, nothing is set back: the current
  claim and the lists stay as the optimistic update left them.
\<close>

lemma refetch_failure_keeps_optimistic:
  assumes "currentClaim st = Some cur"
    and "getProp cur ''id'' \<noteq> JUndefined" and "getProp cur ''id'' \<noteq> JNull"
    and "updateClaimAPI (Date_parse rt) (http_put srv) 0
           (js_toString (Number_toString rt) (getProp cur ''id''))
           (claimWithUserInfo user (formatDateFields (Date_parse rt) upd)) 3 = (response, evs)"
    and "successRow response = None"
    and "successRow (fetchClaimById (http_get srv)
           (js_toString (Number_toString rt) (getProp cur ''id''))) = None"
  shows "currentClaim (final (updateClaim rt srv user st upd))
           = Some (cur ++ formatDateFields (Date_parse rt) upd)
       \<and> claims (final (updateClaim rt srv user st upd))
           = replaceById (getProp cur ''id'') (cur ++ formatDateFields (Date_parse rt) upd)
               (claims st)
       \<and> searchResults (final (updateClaim rt srv user st upd))
           = replaceById (getProp cur ''id'') (cur ++ formatDateFields (Date_parse rt) upd)
               (searchResults st)
       \<and> error (final (updateClaim rt srv user st upd)) = Some (failureMessage response)
       \<and> outcome (updateClaim rt srv user st upd) = Rejected (failureMessage response)"
  using assms(6)
  by (simp add: updateClaim_failure [OF assms(1-5)] rejectWith_def setClaim_def)

text \<open>
  C7 (the code departs from it). The server is unreachable: the four PUTs of the
  update fail and so does the fetch that should restore the claim. The claim was
  stored with a charge amount of 150 and the edit sets 200. When the call ends, the
  current claim and both lists hold the optimistic claim with 200, not the claim as it
  was before the update.
\<close>

theorem refetch_failure_leaves_optimistic_state:
  "currentClaim (final (updateClaim sampleRuntime offline None sampleState sampleUpdate))
     = Some (sampleClaim ++ sampleUpdate)
   \<and> claims (final (updateClaim sampleRuntime offline None sampleState sampleUpdate))
     = [sampleClaim ++ sampleUpdate]
   \<and> searchResults (final (updateClaim sampleRuntime offline None sampleState sampleUpdate))
     = [sampleClaim ++ sampleUpdate]
   \<and> getProp (sampleClaim ++ sampleUpdate) ''charge_amt'' = JNum (Fin 200)
   \<and> getProp sampleClaim ''charge_amt'' = JNum (Fin 150)
   \<and> currentClaim sampleState = Some sampleClaim
   \<and> outcome (updateClaim sampleRuntime offline None sampleState sampleUpdate)
     = Rejected ''Network Error''
   \<and> error (final (updateClaim sampleRuntime offline None sampleState sampleUpdate))
     = Some ''Network Error''
   \<and> putCount (events (updateClaim sampleRuntime offline None sampleState sampleUpdate)) = 4"
proof -
  let ?P = "sanitizedData sampleParse (claimWithUserInfo None sampleUpdate)"
  let ?failure = "\<lparr>success = False, data = None,
       errorText = Some ''Failed to update claim with ID 42'',
       message = Some ''Network Error''\<rparr> :: (jsobj option) api_result"
  have api: "updateClaimAPI (Date_parse sampleRuntime) (http_put offline) 0
      (js_toString (Number_toString sampleRuntime) (getProp sampleClaim ''id''))
      (claimWithUserInfo None (formatDateFields (Date_parse sampleRuntime) sampleUpdate)) 3
      = (?failure, concat (replicate (nat 3) [Put ''42'' ?P, Wait 1500]) @ [Put ''42'' ?P])"
    using updateClaimAPI_exhausted [of 3 "alwaysFails networkError" 0 "''42''" sampleParse
        "claimWithUserInfo None sampleUpdate" networkError]
    by (simp add: sample_cid sample_formatted offline_def alwaysFails_def)
      (simp add: sampleRuntime_def networkError_def)
  have none: "successRow ?failure = None"
    by (simp add: successRow_def)
  have msg: "failureMessage ?failure = ''Network Error''"
    by (simp add: failureMessage_def)
  have refetch: "successRow (fetchClaimById (http_get offline)
      (js_toString (Number_toString sampleRuntime) (getProp sampleClaim ''id''))) = None"
    by (simp add: fetchClaimById_def offline_def successRow_def)
  have ev: "events (updateClaim sampleRuntime offline None sampleState sampleUpdate)
      = concat (replicate (nat 3) [Put ''42'' ?P, Wait 1500]) @ [Put ''42'' ?P, Get ''42'']"
    by (simp add: updateClaim_failure [OF sample_current api none] rejectWith_def sample_cid)
  have n3: "nat 3 = Suc (Suc (Suc 0))"
    by simp
  have pc: "putCount (events (updateClaim sampleRuntime offline None sampleState sampleUpdate)) = 4"
    unfolding ev n3 by (simp add: putCount_def)
  have amounts: "getProp (sampleClaim ++ sampleUpdate) ''charge_amt'' = JNum (Fin 200)"
    "getProp sampleClaim ''charge_amt'' = JNum (Fin 150)"
    by (simp_all add: sampleClaim_def sampleUpdate_def getProp_def)
  show ?thesis
    using refetch_failure_keeps_optimistic [OF sample_current api none refetch] pc amounts
    by (simp add: msg sample_formatted sample_lists sample_current)
qed

section \<open>Properties of the history section\<close>

subsection \<open>One call of \<^verbatim>\<open>loadHistory\<close>\<close>

text \<open>
  A call that makes a request and whose response, a success, arrives while the flag is
  set: the entries are shown and cached, and no error is set.
\<close>

lemma loadHistory_success:
  assumes "forceRefresh \<or> (cachedData cache cacheKey now = None \<and> \<not> throttled now seen)"
    and "fetchClaimHistory getReq cacheKey = Response True d err msg"
  shows "loadHistory getReq cacheKey now seen True forceRefresh cache st =
     (cache(cacheKey \<mapsto> (d, now)),
      st\<lparr>loading := False, errorMessage := None, lastFetchTime := now, history := d\<rparr>)"
  using assms by (auto simp: loadHistory_def Let_def)

text \<open>With no entries, the expanded section then shows the empty state.\<close>

lemma empty_history_while_mounted:
  assumes "forceRefresh \<or> (cachedData cache cacheKey now = None \<and> \<not> throttled now seen)"
    and "getReq cacheKey = Responded (Response True [] err msg)"
  shows "fetchClaimHistory getReq cacheKey = Response True [] err msg
       \<and> errorMessage (snd (loadHistory getReq cacheKey now seen True forceRefresh cache st))
           = None
       \<and> historyView (snd (loadHistory getReq cacheKey now seen True forceRefresh cache st))
           = (if isExpanded st then EmptyState else Collapsed)"
proof -
  have f: "fetchClaimHistory getReq cacheKey = Response True [] err msg"
    using assms(2) by (simp add: fetchClaimHistory_def)
  show ?thesis
    unfolding loadHistory_success [OF assms(1) f]
    by (simp add: f historyView_def historyBody_def)
qed

text \<open>
  A call sets an error message only after a request whose result is not a success: a
  failure whose message names a status code 500 or a network error, or a result that
  cannot be read, which is a body that is no object or a failure whose message is a
  number or a boolean.
\<close>

lemma loadHistory_error_only_for_failures:
  assumes "loadHistory getReq cacheKey now seen mounted forceRefresh cache st = (cache', st')"
    and "errorMessage st' \<noteq> errorMessage st" and "errorMessage st' \<noteq> None"
  shows "(forceRefresh \<or> (cachedData cache cacheKey now = None \<and> \<not> throttled now seen))
       \<and> mounted
       \<and> (case fetchClaimHistory getReq cacheKey of
             NoObject \<Rightarrow> True
           | Response ok d err msg \<Rightarrow>
               \<not> ok \<and> messageIncludes msg ''status code 500'' \<noteq> Some False
                 \<or> \<not> ok \<and> messageIncludes msg ''Network Error'' \<noteq> Some False)"
  using assms
  by (auto simp: loadHistory_def Let_def
      split: option.splits if_splits history_response.splits bool.splits)

text \<open>A body that is no object ends in the \<^verbatim>\<open>catch\<close> block.\<close>

lemma loadHistory_caught:
  assumes "forceRefresh \<or> (cachedData cache cacheKey now = None \<and> \<not> throttled now seen)"
    and "getReq cacheKey = Responded NoObject"
  shows "loadHistory getReq cacheKey now seen True forceRefresh cache st =
     (cache,
      st\<lparr>loading := False,
         errorMessage := Some ''An error occurred while loading history. Please try again later.'',
         lastFetchTime := now, history := []\<rparr>)"
  using assms by (auto simp: loadHistory_def fetchClaimHistory_def Let_def)

text \<open>Without a request, the call leaves the error message as it is.\<close>

lemma loadHistory_without_fetch:
  assumes "\<not> forceRefresh" and "cachedData cache cacheKey now \<noteq> None \<or> throttled now seen"
  shows "errorMessage (snd (loadHistory getReq cacheKey now seen mounted forceRefresh cache st))
           = errorMessage st"
  using assms by (auto simp: loadHistory_def split: option.splits)

text \<open>A response that arrives while the flag is cleared sets nothing: loading goes on.\<close>

lemma loadHistory_unmounted:
  assumes "forceRefresh \<or> (cachedData cache cacheKey now = None \<and> \<not> throttled now seen)"
  shows "loadHistory getReq cacheKey now seen False forceRefresh cache st =
     (cache, st\<lparr>loading := True, errorMessage := None, lastFetchTime := now\<rparr>)"
  using assms by (auto simp: loadHistory_def Let_def)

subsection \<open>The section over its life\<close>

text \<open>
  The first claim that a mounted section shows: when its history is empty, the
  section shows the empty state and no error.
\<close>

lemma mountSection_empty_history:
  assumes "cachedData cache claimId now = None" and "10000 \<le> now"
    and "getReq claimId = Responded (Response True [] err msg)"
  shows "historyView (sectionState (snd (mountSection getReq claimId now cache))) = EmptyState
       \<and> errorMessage (sectionState (snd (mountSection getReq claimId now cache))) = None"
proof -
  have r: "False \<or> (cachedData cache claimId now = None \<and> \<not> throttled now 0)"
    using assms(1,2) by (simp add: throttled_def)
  have f: "fetchClaimHistory getReq claimId = Response True [] err msg"
    using assms(3) by (simp add: fetchClaimHistory_def)
  show ?thesis
    by (simp add: mountSection_def initialSection_def Let_def loadHistory_success [OF r f]
        historyView_def historyBody_def)
qed

text \<open>
  Every later claim: the flag is cleared when the claim changes, so the response to
  the request for its history is dropped and the section keeps loading, whatever the
  response.
\<close>

lemma changeClaimId_keeps_loading:
  assumes "cachedData cache claimId now = None"
    and "\<not> throttled now (lastFetchTime (sectionState sec))"
  shows "loading (sectionState (snd (changeClaimId getReq claimId now cache sec)))
       \<and> \<not> isMounted (snd (changeClaimId getReq claimId now cache sec))
       \<and> history (sectionState (snd (changeClaimId getReq claimId now cache sec)))
           = history (sectionState sec)"
proof -
  have r: "False \<or> (cachedData cache claimId now = None
      \<and> \<not> throttled now (lastFetchTime (sectionState sec)))"
    using assms by simp
  show ?thesis
    by (simp add: changeClaimId_def Let_def loadHistory_unmounted [OF r])
qed

text \<open>
  A click on Refresh while the flag is set asks the server whatever the cache holds;
  when the answer is a success with no entries, the section shows the empty state.
\<close>

lemma handleRefresh_empty_history:
  assumes "isMounted sec" and "isExpanded (sectionState sec)"
    and "getReq claimId = Responded (Response True [] err msg)"
  shows "historyView (sectionState (snd (handleRefresh getReq claimId now cache sec)))
           = EmptyState
       \<and> errorMessage (sectionState (snd (handleRefresh getReq claimId now cache sec))) = None"
proof -
  have r: "True \<or> (cachedData cache claimId now = None
      \<and> \<not> throttled now (lastFetchTime (sectionState sec)))"
    by simp
  have f: "fetchClaimHistory getReq claimId = Response True [] err msg"
    using assms(3) by (simp add: fetchClaimHistory_def)
  show ?thesis
    using assms(1,2)
    by (simp add: handleRefresh_def Let_def loadHistory_success [OF r f] historyView_def
        historyBody_def)
qed

text \<open>
  C9 (the code departs from it). The section is mounted for claim 41, whose history is
  empty, and shows the empty state. A minute later the page shows claim 42: the
  request for its history succeeds with no entries, \<^verbatim>\<open>{success: true, data: []}\<close>, but
  the flag was cleared when the claim changed, the response is dropped, and the
  section goes on showing \<^verbatim>\<open>Loading history...\<close> instead of the empty state (its
  Refresh button is disabled while it loads).
\<close>

theorem empty_history_keeps_loading_after_claim_change:
  "fetchClaimHistory noHistory ''42'' = Response True [] JUndefined JUndefined
   \<and> historyView (sectionState (snd firstClaim)) = EmptyState
   \<and> isMounted (snd firstClaim)
   \<and> \<not> isMounted (snd secondClaim)
   \<and> loading (sectionState (snd secondClaim))
   \<and> historyView (sectionState (snd secondClaim)) = LoadingView"
proof -
  have f: "\<And>cid. fetchClaimHistory noHistory cid = Response True [] JUndefined JUndefined"
    by (simp add: fetchClaimHistory_def noHistory_def)
  have r1: "False \<or> (cachedData Map.empty ''41'' 1741046400000 = None
      \<and> \<not> throttled 1741046400000 0)"
    by (simp add: cachedData_def throttled_def)
  have 1: "firstClaim =
      ([''41'' \<mapsto> ([], 1741046400000)],
       \<lparr>sectionState =
          \<lparr>history = [], loading = False, errorMessage = None, isExpanded = True,
           lastFetchTime = 1741046400000\<rparr>,
        isMounted = True\<rparr>)"
    by (simp add: firstClaim_def mountSection_def initialSection_def Let_def
        loadHistory_success [OF r1 f])
  have r2: "False \<or> (cachedData [''41'' \<mapsto> ([], 1741046400000)] ''42'' 1741046460000 = None
      \<and> \<not> throttled 1741046460000 1741046400000)"
    by (simp add: cachedData_def throttled_def)
  have 2: "secondClaim =
      ([''41'' \<mapsto> ([], 1741046400000)],
       \<lparr>sectionState =
          \<lparr>history = [], loading = True, errorMessage = None, isExpanded = True,
           lastFetchTime = 1741046460000\<rparr>,
        isMounted = False\<rparr>)"
    by (simp add: secondClaim_def 1 changeClaimId_def Let_def loadHistory_unmounted [OF r2])
  show ?thesis
    by (simp add: f 1 2 historyView_def historyBody_def)
qed

text \<open>
  The path through the cache does not clear the error: the banner of the failed
  request for claim 41 stays over the cached, empty history of claim 42.
\<close>

lemma stale_error_over_cached_empty_history:
  "history (sectionState (snd cachedClaim)) = []
   \<and> historyView (sectionState (snd cachedClaim))
       = ErrorBanner ''Unable to load history right now. Please try again later.''"
proof -
  have c: "cachedData cachedEmpty ''41'' 1741046400000 = None"
    "cachedData cachedEmpty ''42'' 1741046410000 = Some []"
    by (simp_all add: cachedData_def cachedEmpty_def CACHE_EXPIRY_def)
  have i: "messageIncludes (JStr ''Request failed with status code 500'') ''status code 500''
      = Some True"
    by simp
  have 1: "failedClaim =
      (cachedEmpty,
       \<lparr>sectionState =
          \<lparr>history = [], loading = False,
           errorMessage = Some ''Unable to load history right now. Please try again later.'',
           isExpanded = True, lastFetchTime = 1741046400000\<rparr>,
        isMounted = True\<rparr>)"
    by (simp add: failedClaim_def mountSection_def initialSection_def Let_def loadHistory_def
        fetchClaimHistory_def serverError_def c(1) throttled_def i del: messageIncludes.simps)
  have 2: "sectionState (snd cachedClaim) =
      \<lparr>history = [], loading = False,
       errorMessage = Some ''Unable to load history right now. Please try again later.'',
       isExpanded = True, lastFetchTime = 1741046400000\<rparr>"
    by (simp add: cachedClaim_def 1 changeClaimId_def Let_def loadHistory_def c(2))
  show ?thesis
    by (simp add: 2 historyView_def historyBody_def)
qed

section \<open>Properties of the Claim Service as specified\<close>

lemma runWrites_Some_fold:
  "runWrites fails n ws store = Some store' \<Longrightarrow> store' = fold applyWrite ws store"
  by (induction ws arbitrary: n store) (auto split: if_splits)

lemma runWrites_Some_iff:
  "(\<exists>store'. runWrites fails n ws store = Some store') \<longleftrightarrow> (\<forall>i<length ws. \<not> fails (n + i))"
proof (induction ws arbitrary: n store)
  case Nil
  then show ?case by simp
next
  case (Cons w ws)
  have "(\<forall>i<Suc (length ws). \<not> fails (n + i))
      \<longleftrightarrow> \<not> fails n \<and> (\<forall>i<length ws. \<not> fails (Suc n + i))"
    by (auto simp: less_Suc_eq_0_disj)
  then show ?case
    using Cons.IH [of "Suc n" "applyWrite w store"] by simp
qed

lemma fold_InsertLog:
  "fold applyWrite (map (\<lambda>f. InsertLog (g f)) fs) store
     = store\<lparr>changeLog := changeLog store @ map g fs\<rparr>"
  by (induction fs arbitrary: store) (simp_all add: applyWrite_def)

lemma fold_updateWrites:
  "fold applyWrite (updateWrites cfg cid user now row request) store =
     \<lparr>claimRows = (claimRows store)(cid \<mapsto> updatedRow cfg row request),
      changeLog = changeLog store
        @ map (logEntry cfg cid user now row request) (changedFields cfg row request)\<rparr>"
  unfolding updateWrites_def by (cases store) (simp add: fold_InsertLog applyWrite_def)

lemma updateClaimService_success:
  assumes "updateClaimService cfg fails now cid user request store = (Inr newRow, store')"
  shows "\<exists>row. claimRows store cid = Some row
           \<and> newRow = updatedRow cfg row request
           \<and> store' = \<lparr>claimRows = (claimRows store)(cid \<mapsto> updatedRow cfg row request),
                changeLog = changeLog store
                  @ map (logEntry cfg cid user now row request) (changedFields cfg row request)\<rparr>"
  using assms
  by (auto simp: updateClaimService_def fold_updateWrites split: if_splits option.splits
      dest!: runWrites_Some_fold)

lemma changedFields_set:
  "set (changedFields cfg row request)
     = {f \<in> set (columns cfg). request f \<noteq> None \<and> row f \<noteq> incoming cfg request f}"
  by (auto simp: changedFields_def targetedFields_def)

lemma changedFields_distinct: "distinct (columns cfg) \<Longrightarrow> distinct (changedFields cfg row request)"
  by (simp add: changedFields_def targetedFields_def)

text \<open>
  C1 (on the service as the specification describes it). When an update succeeds on a
  claim whose stored row is \<open>row\<close>, the entries added to the change log are one per
  changed field (a canonical column present in the request whose stored value differs
  from the incoming one), in number the number of changed fields, each with the field's
  name, the stored value as the old value, the incoming value as the new one, and the
  acting user; a request whose incoming values all equal the stored ones adds no entry.
\<close>

theorem one_log_entry_per_changed_field:
  assumes "updateClaimService cfg fails now cid user request store = (Inr newRow, store')"
    and "claimRows store cid = Some row"
    and "distinct (columns cfg)"
  shows "changeLog store' = changeLog store
           @ map (logEntry cfg cid user now row request) (changedFields cfg row request)
       \<and> length (changeLog store') = length (changeLog store)
           + card {f \<in> set (columns cfg). request f \<noteq> None \<and> row f \<noteq> incoming cfg request f}
       \<and> map entry_field_name (drop (length (changeLog store)) (changeLog store'))
           = changedFields cfg row request
       \<and> distinct (changedFields cfg row request)
       \<and> (\<forall>e \<in> set (drop (length (changeLog store)) (changeLog store')).
             entry_old_value e = row (entry_field_name e)
             \<and> entry_new_value e = incoming cfg request (entry_field_name e)
             \<and> entry_old_value e \<noteq> entry_new_value e
             \<and> entry_user e = user \<and> entry_claim e = cid)
       \<and> ((\<forall>f \<in> set (columns cfg). request f \<noteq> None \<longrightarrow> incoming cfg request f = row f)
            \<longrightarrow> changeLog store' = changeLog store)"
proof -
  from updateClaimService_success [OF assms(1)] assms(2)
  have log: "changeLog store' = changeLog store
      @ map (logEntry cfg cid user now row request) (changedFields cfg row request)"
    by auto
  have card: "card {f \<in> set (columns cfg). request f \<noteq> None \<and> row f \<noteq> incoming cfg request f}
      = length (changedFields cfg row request)"
    using changedFields_distinct [OF assms(3), of row request] distinct_card
    by (metis changedFields_set)
  have names: "map entry_field_name
      (map (logEntry cfg cid user now row request) (changedFields cfg row request))
      = changedFields cfg row request"
    by (induction "changedFields cfg row request") (simp_all add: logEntry_def map_idI comp_def)
  have each: "\<forall>e \<in> set (map (logEntry cfg cid user now row request) (changedFields cfg row request)).
      entry_old_value e = row (entry_field_name e)
      \<and> entry_new_value e = incoming cfg request (entry_field_name e)
      \<and> entry_old_value e \<noteq> entry_new_value e
      \<and> entry_user e = user \<and> entry_claim e = cid"
    by (auto simp: logEntry_def changedFields_set)
  have none: "changedFields cfg row request = []"
    if "\<forall>f \<in> set (columns cfg). request f \<noteq> None \<longrightarrow> incoming cfg request f = row f"
  proof -
    from that have "set (changedFields cfg row request) = {}"
      unfolding changedFields_set by auto
    then show ?thesis
      by simp
  qed
  have new: "drop (length (changeLog store)) (changeLog store')
      = map (logEntry cfg cid user now row request) (changedFields cfg row request)"
    by (simp add: log)
  have len: "length (changeLog store') = length (changeLog store)
      + card {f \<in> set (columns cfg). request f \<noteq> None \<and> row f \<noteq> incoming cfg request f}"
    unfolding card by (simp add: log)
  have same: "changeLog store' = changeLog store"
    if "\<forall>f \<in> set (columns cfg). request f \<noteq> None \<longrightarrow> incoming cfg request f = row f"
    using none [OF that] by (simp add: log)
  show ?thesis
    unfolding new
    using log len names each same changedFields_distinct [OF assms(3), of row request]
    by blast
qed
lemmas service_eval =
  updateClaimService_def updateWrites_def changedFields_def targetedFields_def incoming_def
  updatedRow_def logEntry_def applyWrite_def sampleConfig_def sampleStore_def
  sampleStoredRow_def

text \<open>
  The example of the specification: \<^verbatim>\<open>{id: 42, charge_amt: ''}\<close> on a claim charged
  150.00 adds the one entry from 150.00 to null; the same amount again adds none.
\<close>

theorem one_log_entry_per_changed_field_witness:
  "changeLog (snd (updateClaimService sampleConfig neverFails 1741046400000 42 sampleUser
       [''charge_amt'' \<mapsto> []] sampleStore))
     = [\<lparr>entry_claim = 42, entry_user = sampleUser, entry_field_name = ''charge_amt'',
         entry_old_value = Some ''150.00'', entry_new_value = None,
         entry_timestamp = 1741046400000\<rparr>]
   \<and> changeLog (snd (updateClaimService sampleConfig neverFails 1741046400000 42 sampleUser
       [''charge_amt'' \<mapsto> ''150.00''] sampleStore)) = []"
proof -
  have d: "distinct (columns sampleConfig)" and rq: "requiredFields sampleConfig = []"
    by (simp_all add: sampleConfig_def)
  have r: "claimRows sampleStore 42 = Some sampleStoredRow" and cl: "changeLog sampleStore = []"
    by (simp_all add: sampleStore_def)
  have w: "runWrites neverFails n ws st = Some (fold applyWrite ws st)" for n ws
    and st :: "string claim_store"
    by (induction ws arbitrary: n st) (simp_all add: neverFails_def)
  have e: "updateClaimService sampleConfig neverFails 1741046400000 42 sampleUser req sampleStore
      = (Inr (updatedRow sampleConfig sampleStoredRow req),
         fold applyWrite
           (updateWrites sampleConfig 42 sampleUser 1741046400000 sampleStoredRow req)
           sampleStore)" for req
    by (simp add: updateClaimService_def rq r w)
  have c1: "changedFields sampleConfig sampleStoredRow [''charge_amt'' \<mapsto> []] = [''charge_amt'']"
    and c2: "changedFields sampleConfig sampleStoredRow [''charge_amt'' \<mapsto> ''150.00''] = []"
    by (simp_all add: changedFields_def targetedFields_def incoming_def sampleConfig_def
        sampleStoredRow_def)
  have old: "sampleStoredRow ''charge_amt'' = Some ''150.00''"
    by (simp add: sampleStoredRow_def)
  have new: "incoming sampleConfig [''charge_amt'' \<mapsto> []] ''charge_amt'' = None"
    by (simp add: incoming_def sampleConfig_def)
  have 1: "changeLog (fold applyWrite
      (updateWrites sampleConfig 42 sampleUser 1741046400000 sampleStoredRow
         [''charge_amt'' \<mapsto> []]) sampleStore)
      = [logEntry sampleConfig 42 sampleUser 1741046400000 sampleStoredRow
           [''charge_amt'' \<mapsto> []] ''charge_amt'']"
    using one_log_entry_per_changed_field [OF e r d, of "[''charge_amt'' \<mapsto> []]"]
    unfolding c1 cl by simp
  have 2: "changeLog (fold applyWrite
      (updateWrites sampleConfig 42 sampleUser 1741046400000 sampleStoredRow
         [''charge_amt'' \<mapsto> ''150.00'']) sampleStore) = []"
    using one_log_entry_per_changed_field [OF e r d, of "[''charge_amt'' \<mapsto> ''150.00'']"]
    unfolding c2 cl by simp
  show ?thesis
    unfolding e snd_conv 1 2 by (simp add: logEntry_def old new)
qed

text \<open>
  C2 (on the service as the specification describes it). An update that ends with an
  error, and so one that ends with PersistenceError, leaves the store (the claim rows
  and the change log) as it was before the request; on a claim that exists, with the
  required fields given, it ends with PersistenceError exactly when the storage fails
  at one of its writes (the row or one of the change-log inserts); and an update that
  succeeds has written the row and all its change-log entries.
\<close>

theorem update_is_atomic:
  assumes "updateClaimService cfg fails now cid user request store = (result, store')"
  shows "(result = Inl PersistenceError \<longrightarrow> store' = store)
       \<and> (result = Inl e \<longrightarrow> store' = store)
       \<and> (claimRows store cid = Some row
            \<and> (\<forall>f \<in> set (requiredFields cfg). request f \<noteq> None) \<longrightarrow>
            (result = Inl PersistenceError
               \<longleftrightarrow> (\<exists>i\<le>length (changedFields cfg row request). fails i)))
       \<and> (result = Inr newRow \<longrightarrow>
            (\<exists>old. claimRows store cid = Some old
               \<and> newRow = updatedRow cfg old request
               \<and> store' = \<lparr>claimRows = (claimRows store)(cid \<mapsto> updatedRow cfg old request),
                    changeLog = changeLog store
                      @ map (logEntry cfg cid user now old request)
                          (changedFields cfg old request)\<rparr>))"
proof -
  have a: "result = Inl e \<Longrightarrow> store' = store" for e
    using assms by (auto simp: updateClaimService_def split: if_splits option.splits)
  have len: "length (updateWrites cfg cid user now row request)
      = Suc (length (changedFields cfg row request))"
    by (simp add: updateWrites_def)
  have b: "result = Inl PersistenceError
      \<longleftrightarrow> (\<exists>i\<le>length (changedFields cfg row request). fails i)"
    if "claimRows store cid = Some row" "\<forall>f \<in> set (requiredFields cfg). request f \<noteq> None"
  proof -
    have "result = Inl PersistenceError
        \<longleftrightarrow> runWrites fails 0 (updateWrites cfg cid user now row request) store = None"
      using assms that by (auto simp: updateClaimService_def split: option.splits)
    also have "\<dots> \<longleftrightarrow> \<not> (\<forall>i<length (updateWrites cfg cid user now row request). \<not> fails (0 + i))"
      using runWrites_Some_iff [of fails 0 "updateWrites cfg cid user now row request" store]
      by auto
    also have "\<dots> \<longleftrightarrow> (\<exists>i\<le>length (changedFields cfg row request). fails i)"
      unfolding len by (auto simp: less_Suc_eq_le)
    finally show ?thesis .
  qed
  have c: "result = Inr newRow \<Longrightarrow>
      \<exists>old. claimRows store cid = Some old
        \<and> newRow = updatedRow cfg old request
        \<and> store' = \<lparr>claimRows = (claimRows store)(cid \<mapsto> updatedRow cfg old request),
             changeLog = changeLog store
               @ map (logEntry cfg cid user now old request) (changedFields cfg old request)\<rparr>"
    using updateClaimService_success [of cfg fails now cid user request store newRow store'] assms
    by simp
  show ?thesis
    using a b c by blast
qed

text \<open>
  The storage fails at the change-log insert, after the row was written: the error is
  PersistenceError and the store is the one before the request.
\<close>

theorem update_is_atomic_witness:
  "updateClaimService sampleConfig failsAtSecondWrite 1741046400000 42 sampleUser
       [''charge_amt'' \<mapsto> []] sampleStore
     = (Inl PersistenceError, sampleStore)"
proof -
  have c: "changedFields sampleConfig sampleStoredRow [''charge_amt'' \<mapsto> []] = [''charge_amt'']"
    by (simp add: changedFields_def targetedFields_def incoming_def sampleConfig_def
        sampleStoredRow_def)
  have r: "claimRows sampleStore 42 = Some sampleStoredRow"
    by (simp add: sampleStore_def)
  have q: "\<forall>f \<in> set (requiredFields sampleConfig). [''charge_amt'' \<mapsto> []] f \<noteq> None"
    by (simp add: sampleConfig_def)
  have f: "\<exists>i\<le>length (changedFields sampleConfig sampleStoredRow [''charge_amt'' \<mapsto> []]).
      failsAtSecondWrite i"
    unfolding c by (auto simp: failsAtSecondWrite_def)
  show ?thesis
    using update_is_atomic [OF prod.collapse [symmetric], of sampleConfig failsAtSecondWrite
        1741046400000 42 sampleUser "[''charge_amt'' \<mapsto> []]" sampleStore undefined
        sampleStoredRow undefined] r q f
    by (metis prod.collapse)
qed

end
